theory Spec2Isabelle
  imports Main
begin

section \<open>Errors\<close>

text \<open>
  A promise rejection or a \<^verbatim>\<open>throw\<close> carries an error object. The code of the
  repository tells error objects apart by their class, their \<^verbatim>\<open>message\<close> and their
  \<^verbatim>\<open>code\<close>, so an error object is modelled by these three; \<open>PlainError\<close> stands
  for the class \<^verbatim>\<open>Error\<close> itself. The injected collaborators are taken to reject
  with error objects only.
\<close>

datatype error_class = PlainError | TypeError | WebExtError | RemoteTempInstallNotSupported

datatype js_error =
  ErrorObject (errClass: error_class) (message: string) (code: "string option")

text \<open>
  Modelled from the spec: the module \<^verbatim>\<open>src/errors.js\<close> (\<^verbatim>\<open>WebExtError\<close>,
  \<^verbatim>\<open>RemoteTempInstallNotSupported\<close>, \<^verbatim>\<open>isErrorWithCode\<close>,
  \<^verbatim>\<open>onlyErrorsWithCode\<close>, \<^verbatim>\<open>onlyInstancesOf\<close>) is missing. An error "with
  code c" is an error object whose \<^verbatim>\<open>code\<close> field is c; the spec's
  \<^verbatim>\<open>ConnectionRefused\<close> is the error with code \<^verbatim>\<open>ECONNREFUSED\<close>.
\<close>

definition isErrorWithCode :: "string \<Rightarrow> js_error \<Rightarrow> bool" where
  "isErrorWithCode codeWanted error = (code error = Some codeWanted)"

text \<open>
  Modelled from the spec: \<^verbatim>\<open>onlyErrorsWithCode(code, handler)\<close> of the missing
  \<^verbatim>\<open>src/errors.js\<close> builds a rejection handler that runs \<^verbatim>\<open>handler\<close> on an error
  with that code and throws every other error again.
\<close>

definition onlyErrorsWithCode ::
  "string \<Rightarrow> (js_error \<Rightarrow> js_error + 'a) \<Rightarrow> js_error \<Rightarrow> js_error + 'a" where
  "onlyErrorsWithCode codeWanted errorHandler error =
     (if isErrorWithCode codeWanted error then errorHandler error else Inl error)"

text \<open>
  Modelled from the spec: \<^verbatim>\<open>error instanceof C\<close> for the classes of the missing
  \<^verbatim>\<open>src/errors.js\<close>, where \<^verbatim>\<open>RemoteTempInstallNotSupported\<close> (the spec's
  \<^verbatim>\<open>RemoteInstallUnsupported\<close>) is a kind of \<^verbatim>\<open>WebExtError\<close> and every error
  object is an \<^verbatim>\<open>Error\<close>.
\<close>

fun subclassOf :: "error_class \<Rightarrow> error_class \<Rightarrow> bool" where
  "subclassOf c PlainError = True"
| "subclassOf c TypeError = (c = TypeError)"
| "subclassOf c WebExtError = (c = WebExtError \<or> c = RemoteTempInstallNotSupported)"
| "subclassOf c RemoteTempInstallNotSupported = (c = RemoteTempInstallNotSupported)"

definition instanceOf :: "js_error \<Rightarrow> error_class \<Rightarrow> bool" where
  "instanceOf error cls = subclassOf (errClass error) cls"

text \<open>
  Modelled from the spec: \<^verbatim>\<open>onlyInstancesOf(C, handler)\<close> of the missing
  \<^verbatim>\<open>src/errors.js\<close> runs \<^verbatim>\<open>handler\<close> on an instance of C and throws every other
  error again.
\<close>

definition onlyInstancesOf ::
  "error_class \<Rightarrow> (js_error \<Rightarrow> js_error + 'a) \<Rightarrow> js_error \<Rightarrow> js_error + 'a" where
  "onlyInstancesOf cls errorHandler error =
     (if instanceOf error cls then errorHandler error else Inl error)"

section \<open>The connection retrier: \<^verbatim>\<open>defaultFirefoxClient\<close>\<close>

text \<open>
  \<^verbatim>\<open>connectToFirefox\<close> is an injected effectful function. It is modelled by its script:
  the outcome of its n-th invocation (counted from 0), \<open>Inr\<close> a connected client or
  \<open>Inl\<close> the error the returned promise rejects with. The retrier's own state is the
  number of invocations made so far and the milliseconds spent in \<^verbatim>\<open>setTimeout\<close>.
\<close>

type_synonym 'c connector = "nat \<Rightarrow> js_error + 'c"

record retrier_state =
  callCount :: nat
  slept :: int

definition initial_retrier_state :: retrier_state where
  "initial_retrier_state = \<lparr>callCount = 0, slept = 0\<rparr>"

text \<open>
  \<^verbatim>\<open>establishConnection\<close> of \<^verbatim>\<open>src/cmd/run.js\<close>: the loop
  \<^verbatim>\<open>for (let retries = 0; retries <= maxRetries; retries++)\<close> with
  \<^verbatim>\<open>var lastError\<close>; falling out of the loop throws \<^verbatim>\<open>lastError\<close>, which is
  \<^verbatim>\<open>undefined\<close> when the loop body never ran. So what this function throws is an
  error object or \<^verbatim>\<open>undefined\<close>.
\<close>

datatype thrown = Thrown js_error | ThrownUndefined

function establishConnection ::
  "'c connector \<Rightarrow> int \<Rightarrow> int \<Rightarrow> int \<Rightarrow> js_error option \<Rightarrow> retrier_state
     \<Rightarrow> (thrown + 'c) \<times> retrier_state" where
  "establishConnection connectToFirefox maxRetries retryInterval retries lastError st =
     (if retries \<le> maxRetries then
        (case connectToFirefox (callCount st) of
           Inr client \<Rightarrow> (Inr client, st\<lparr>callCount := callCount st + 1\<rparr>)
         | Inl error \<Rightarrow>
             if isErrorWithCode ''ECONNREFUSED'' error then
               establishConnection connectToFirefox maxRetries retryInterval (retries + 1)
                 (Some error)
                 (st\<lparr>callCount := callCount st + 1, slept := slept st + retryInterval\<rparr>)
             else (Inl (Thrown error), st\<lparr>callCount := callCount st + 1\<rparr>))
      else
        (Inl (case lastError of None \<Rightarrow> ThrownUndefined | Some error \<Rightarrow> Thrown error), st))"
  by pat_completeness auto
termination
  by (relation "measure (\<lambda>(c, maxRetries, i, retries, l, s). nat (maxRetries + 1 - retries))") auto

text \<open>
  The parameter object of \<^verbatim>\<open>defaultFirefoxClient\<close>: a field the caller leaves out is
  \<open>None\<close> and takes the default of the destructuring pattern.
\<close>

record 'c CreateFirefoxClientParams =
  param_connectToFirefox :: "'c connector"
  param_maxRetries :: "int option"
  param_retryInterval :: "int option"

definition defaultFirefoxClient ::
  "'c CreateFirefoxClientParams \<Rightarrow> (thrown + 'c) \<times> retrier_state" where
  "defaultFirefoxClient params =
     establishConnection (param_connectToFirefox params)
       (case param_maxRetries params of None \<Rightarrow> 250 | Some m \<Rightarrow> m)
       (case param_retryInterval params of None \<Rightarrow> 120 | Some i \<Rightarrow> i)
       0 None initial_retrier_state"

text \<open>
  The other \<^verbatim>\<open>defaultFirefoxClient\<close> of the repository (the source file
  \<^verbatim>\<open>src/unnamed/part_000\<close>): \<^verbatim>\<open>var retries = 0\<close> lives in the closure,
  \<^verbatim>\<open>establishConnection\<close> calls itself from a timer, and the refusal handler is
  wrapped in \<^verbatim>\<open>onlyErrorsWithCode('ECONNREFUSED', ...)\<close>, followed by a second
  \<^verbatim>\<open>catch\<close> that rejects with whatever was thrown.
\<close>

function establishConnection_legacy ::
  "'c connector \<Rightarrow> int \<Rightarrow> int \<Rightarrow> int \<Rightarrow> retrier_state \<Rightarrow> (js_error + 'c) \<times> retrier_state" where
  "establishConnection_legacy connectToFirefox maxRetries retryInterval retries st =
     (case connectToFirefox (callCount st) of
        Inr connectedClient \<Rightarrow> (Inr connectedClient, st\<lparr>callCount := callCount st + 1\<rparr>)
      | Inl error \<Rightarrow>
          if isErrorWithCode ''ECONNREFUSED'' error then
            (if retries \<ge> maxRetries then (Inl error, st\<lparr>callCount := callCount st + 1\<rparr>)
             else establishConnection_legacy connectToFirefox maxRetries retryInterval
                    (retries + 1)
                    (st\<lparr>callCount := callCount st + 1, slept := slept st + retryInterval\<rparr>))
          else (Inl error, st\<lparr>callCount := callCount st + 1\<rparr>))"
  by pat_completeness auto
termination
  by (relation "measure (\<lambda>(c, maxRetries, i, retries, s). nat (maxRetries - retries))") auto

definition defaultFirefoxClient_legacy ::
  "'c CreateFirefoxClientParams \<Rightarrow> (js_error + 'c) \<times> retrier_state" where
  "defaultFirefoxClient_legacy params =
     establishConnection_legacy (param_connectToFirefox params)
       (case param_maxRetries params of None \<Rightarrow> 25 | Some m \<Rightarrow> m)
       (case param_retryInterval params of None \<Rightarrow> 120 | Some i \<Rightarrow> i)
       0 initial_retrier_state"

text \<open>
  The recursive equations are unconditional, so they are unfolded by hand only.
\<close>

declare establishConnection.simps [simp del]
declare establishConnection_legacy.simps [simp del]

text \<open>
  An attempt is refused when its promise rejects with an error of code
  \<^verbatim>\<open>ECONNREFUSED\<close>.
\<close>

definition refused :: "js_error + 'c \<Rightarrow> bool" where
  "refused r = (case r of Inl error \<Rightarrow> isErrorWithCode ''ECONNREFUSED'' error | Inr c \<Rightarrow> False)"

text \<open>
  The retrier's state after k further refused attempts, each followed by a sleep.
\<close>

definition advance :: "retrier_state \<Rightarrow> nat \<Rightarrow> int \<Rightarrow> retrier_state" where
  "advance st k retryInterval =
     st\<lparr>callCount := callCount st + k, slept := slept st + int k * retryInterval\<rparr>"

text \<open>
  Two errors used as concrete inputs: a refusal as the TCP layer reports it, and an error
  that is not a connection error.
\<close>

definition connectionRefused :: js_error where
  "connectionRefused = ErrorObject PlainError ''failure'' (Some ''ECONNREFUSED'')"

definition handshakeError :: js_error where
  "handshakeError = ErrorObject PlainError ''not a connection error'' None"

section \<open>Promises\<close>

text \<open>
  A promise, seen by what becomes of it: it stays pending, or it settles at some time
  (counted in ticks from the call under study) with a value or with an error.
\<close>

datatype 'a promise = Pending | Fulfilled nat 'a | Rejected nat js_error

text \<open>
  \<^verbatim>\<open>promise.then(onFulfilled, onRejected)\<close> with handlers that return normally: the
  result is fulfilled either way.
\<close>

fun promise_then :: "('a \<Rightarrow> 'b) \<Rightarrow> (js_error \<Rightarrow> 'b) \<Rightarrow> 'a promise \<Rightarrow> 'b promise" where
  "promise_then onFulfilled onRejected Pending = Pending"
| "promise_then onFulfilled onRejected (Fulfilled t v) = Fulfilled t (onFulfilled v)"
| "promise_then onFulfilled onRejected (Rejected t error) = Fulfilled t (onRejected error)"

text \<open>
  \<^verbatim>\<open>promise.then(onFulfilled)\<close>, which is also what \<^verbatim>\<open>await\<close> followed by more code
  does: a rejection passes through.
\<close>

fun promise_map :: "('a \<Rightarrow> 'b) \<Rightarrow> 'a promise \<Rightarrow> 'b promise" where
  "promise_map onFulfilled Pending = Pending"
| "promise_map onFulfilled (Fulfilled t v) = Fulfilled t (onFulfilled v)"
| "promise_map onFulfilled (Rejected t error) = Rejected t error"

text \<open>
  \<^verbatim>\<open>Promise.all\<close>: it rejects as soon as one member rejects, with that member's error
  (the earliest rejection; of two at the same tick, the one earlier in the array), without
  waiting for the others. It is fulfilled with the array of values once every member is
  fulfilled, and stays pending otherwise.
\<close>

fun firstRejection :: "'a promise list \<Rightarrow> (nat \<times> js_error) option" where
  "firstRejection [] = None"
| "firstRejection (Rejected t error # ps) =
     (case firstRejection ps of
        None \<Rightarrow> Some (t, error)
      | Some (t', error') \<Rightarrow> if t' < t then Some (t', error') else Some (t, error))"
| "firstRejection (Pending # ps) = firstRejection ps"
| "firstRejection (Fulfilled t v # ps) = firstRejection ps"

fun fulfilments :: "'a promise list \<Rightarrow> (nat \<times> 'a list) option" where
  "fulfilments [] = Some (0, [])"
| "fulfilments (Fulfilled t v # ps) =
     (case fulfilments ps of None \<Rightarrow> None | Some (t', vs) \<Rightarrow> Some (max t t', v # vs))"
| "fulfilments (Pending # ps) = None"
| "fulfilments (Rejected t error # ps) = None"

definition Promise_all :: "'a promise list \<Rightarrow> 'a list promise" where
  "Promise_all promises =
     (case firstRejection promises of
        Some (t, error) \<Rightarrow> Rejected t error
      | None \<Rightarrow>
          (case fulfilments promises of
             Some (t, vs) \<Rightarrow> Fulfilled t vs
           | None \<Rightarrow> Pending))"

text \<open>When a promise settles (0 for one that never does), and the latest of a list of ticks.\<close>

fun settledAt :: "'a promise \<Rightarrow> nat" where
  "settledAt Pending = 0"
| "settledAt (Fulfilled t v) = t"
| "settledAt (Rejected t error) = t"

fun latest :: "nat list \<Rightarrow> nat" where
  "latest [] = 0"
| "latest (t # ts) = max t (latest ts)"

section \<open>\<^verbatim>\<open>MultiExtensionRunner\<close>\<close>

text \<open>
  Modelled from the spec: the interface \<^verbatim>\<open>IExtensionRunner\<close> of the missing
  \<^verbatim>\<open>src/extension-runners/base.js\<close>. A member runner is an injected object; it is
  modelled by what its methods answer: its name, the promises its reload and exit methods
  return, and what happens to a callback handed to its \<^verbatim>\<open>registerCleanup\<close>: the call
  throws, or the member invokes the callback when it cleans up, or it never does.
\<close>

datatype cleanup_behaviour = RegisterThrows js_error | CleansUpAt nat | NeverCleansUp

record IExtensionRunner =
  runner_getName :: string
  runner_reloadAllExtensions :: "unit promise"
  runner_reloadExtensionBySourceDir :: "string \<Rightarrow> unit promise"
  runner_registerCleanup :: cleanup_behaviour
  runner_exit :: "unit promise"

text \<open>
  The result object of a reload; its optional fields are \<open>None\<close> when absent. The field
  \<^verbatim>\<open>sourceDir\<close> is written \<open>result_sourceDir\<close>.
\<close>

record ExtensionRunnerReloadResult =
  runnerName :: string
  reloadError :: "js_error option"
  result_sourceDir :: "string option"

record notification =
  title :: string
  message_text :: string

text \<open>
  \<^verbatim>\<open>handleReloadResults\<close>: one desktop notification for each result whose
  \<^verbatim>\<open>reloadError\<close> is an instance of \<^verbatim>\<open>Error\<close>. An empty \<^verbatim>\<open>sourceDir\<close> is falsy.
\<close>

fun handleReloadResults :: "ExtensionRunnerReloadResult list \<Rightarrow> notification list" where
  "handleReloadResults [] = []"
| "handleReloadResults (r # results) =
     (case reloadError r of
        Some error \<Rightarrow>
          if instanceOf error PlainError then
            \<lparr>title = ''web-ext run: extension reload error'',
             message_text =
               ''Error occurred while reloading''
               @ (case result_sourceDir r of
                    None \<Rightarrow> []
                  | Some dir \<Rightarrow> if dir = [] then [] else '' '' @ [CHR 0x22] @ dir @ [CHR 0x22] @ '' '')
               @ ''on '' @ [CHR 0x22] @ runnerName r @ [CHR 0x22] @ '' - '' @ message error\<rparr>
            # handleReloadResults results
          else handleReloadResults results
      | None \<Rightarrow> handleReloadResults results)"

text \<open>
  \<^verbatim>\<open>reloadAllExtensions\<close>: the loop pushes one promise per runner, each turned into a
  result object by \<^verbatim>\<open>then\<close>; the results of \<^verbatim>\<open>Promise.all\<close> go through
  \<^verbatim>\<open>handleReloadResults\<close> and are returned. The second component is the list of
  notifications shown.
\<close>

definition MultiExtensionRunner_reloadAllExtensions ::
  "IExtensionRunner list \<Rightarrow> ExtensionRunnerReloadResult list promise \<times> notification list" where
  "MultiExtensionRunner_reloadAllExtensions extensionRunners =
     (let promises =
            foldl (\<lambda>promises runner. promises @
                [promise_then
                   (\<lambda>_. \<lparr>runnerName = runner_getName runner, reloadError = None, result_sourceDir = None\<rparr>)
                   (\<lambda>error. \<lparr>runnerName = runner_getName runner, reloadError = Some error,
                             result_sourceDir = None\<rparr>)
                   (runner_reloadAllExtensions runner)])
              [] extensionRunners
      in (case Promise_all promises of
            Fulfilled t results \<Rightarrow> (Fulfilled t results, handleReloadResults results)
          | Rejected t error \<Rightarrow> (Rejected t error, [])
          | Pending \<Rightarrow> (Pending, [])))"

definition MultiExtensionRunner_reloadExtensionBySourceDir ::
  "IExtensionRunner list \<Rightarrow> string
     \<Rightarrow> ExtensionRunnerReloadResult list promise \<times> notification list" where
  "MultiExtensionRunner_reloadExtensionBySourceDir extensionRunners dir =
     (let promises =
            foldl (\<lambda>promises runner. promises @
                [promise_then
                   (\<lambda>_. \<lparr>runnerName = runner_getName runner, reloadError = None,
                         result_sourceDir = Some dir\<rparr>)
                   (\<lambda>error. \<lparr>runnerName = runner_getName runner, reloadError = Some error,
                             result_sourceDir = Some dir\<rparr>)
                   (runner_reloadExtensionBySourceDir runner dir)])
              [] extensionRunners
      in (case Promise_all promises of
            Fulfilled t results \<Rightarrow> (Fulfilled t results, handleReloadResults results)
          | Rejected t error \<Rightarrow> (Rejected t error, [])
          | Pending \<Rightarrow> (Pending, [])))"



text \<open>
  \<^verbatim>\<open>exit\<close>: one \<^verbatim>\<open>runner.exit()\<close> per runner, then \<^verbatim>\<open>await Promise.all(promises)\<close>.
\<close>

definition MultiExtensionRunner_exit :: "IExtensionRunner list \<Rightarrow> unit promise" where
  "MultiExtensionRunner_exit extensionRunners =
     (let promises = foldl (\<lambda>promises runner. promises @ [runner_exit runner]) [] extensionRunners
      in promise_map (\<lambda>_. ()) (Promise_all promises))"

text \<open>
  Concrete runners used as inputs: a runner whose reload and exit promises settle as
  given, a reload error, three runners of which the second fails, and two runners that
  both exit.
\<close>

definition settlingRunner :: "string \<Rightarrow> unit promise \<Rightarrow> cleanup_behaviour \<Rightarrow> IExtensionRunner" where
  "settlingRunner name outcome cleanup =
     \<lparr>runner_getName = name,
      runner_reloadAllExtensions = outcome,
      runner_reloadExtensionBySourceDir = (\<lambda>dir. outcome),
      runner_registerCleanup = cleanup,
      runner_exit = outcome\<rparr>"

definition reloadFailure :: js_error where
  "reloadFailure = ErrorObject WebExtError ''reload failed'' None"

definition threeRunners :: "IExtensionRunner list" where
  "threeRunners =
     [settlingRunner ''Firefox Desktop'' (Fulfilled 1 ()) (CleansUpAt 5),
      settlingRunner ''Firefox Android'' (Rejected 2 reloadFailure) (CleansUpAt 9),
      settlingRunner ''Chromium'' (Fulfilled 3 ()) (CleansUpAt 7)]"

definition twoExitingRunners :: "IExtensionRunner list" where
  "twoExitingRunners =
     [settlingRunner ''Firefox Desktop'' (Fulfilled 4 ()) (CleansUpAt 4),
      settlingRunner ''Chromium'' (Fulfilled 6 ()) (CleansUpAt 6)]"

section \<open>\<^verbatim>\<open>src/firefox/index.js\<close>\<close>

text \<open>
  A non-negative integer rendered in decimal, as a template literal renders a port number.
\<close>

fun string_of_nat :: "nat \<Rightarrow> string" where
  "string_of_nat n =
     (if n < 10 then [''0123456789'' ! n]
      else string_of_nat (n div 10) @ [''0123456789'' ! (n mod 10)])"

declare string_of_nat.simps [simp del]

text \<open>
  Modelled from the spec: \<^verbatim>\<open>new WebExtError(message)\<close> and \<^verbatim>\<open>new TypeError(message)\<close>;
  the class \<^verbatim>\<open>WebExtError\<close> belongs to the missing \<^verbatim>\<open>src/errors.js\<close>. Neither
  sets a \<^verbatim>\<open>code\<close>.
\<close>

definition newWebExtError :: "string \<Rightarrow> js_error" where
  "newWebExtError msg = ErrorObject WebExtError msg None"


subsection \<open>\<^verbatim>\<open>defaultRemotePortFinder\<close>\<close>

text \<open>
  The connector is called once, with the port. \<^verbatim>\<open>REMOTE_PORT\<close>, the default of
  \<^verbatim>\<open>portToTry\<close>, is a constant of the missing \<^verbatim>\<open>src/firefox/remote.js\<close> and is
  taken as a parameter. The result is the outcome of the returned promise and the list of
  probe clients that were disconnected.
\<close>

record 'c RemotePortFinderParams =
  finder_portToTry :: "nat option"
  finder_connectToFirefox :: "nat \<Rightarrow> js_error + 'c"

definition defaultRemotePortFinder ::
  "nat \<Rightarrow> 'c RemotePortFinderParams \<Rightarrow> (js_error + nat) \<times> 'c list" where
  "defaultRemotePortFinder REMOTE_PORT params =
     (let portToTry = (case finder_portToTry params of None \<Rightarrow> REMOTE_PORT | Some p \<Rightarrow> p) in
      case finder_connectToFirefox params portToTry of
        Inr client \<Rightarrow>
          (onlyErrorsWithCode ''ECONNREFUSED'' (\<lambda>_. Inr portToTry)
             (newWebExtError
                (''Cannot listen on port '' @ string_of_nat portToTry @ '' because it's in use'')),
           [client])
      | Inl error \<Rightarrow>
          (onlyErrorsWithCode ''ECONNREFUSED'' (\<lambda>_. Inr portToTry) error, []))"

subsection \<open>\<^verbatim>\<open>run\<close>: launching Firefox\<close>

text \<open>
  The options handed to \<^verbatim>\<open>fxRunner\<close>. The environment is \<^verbatim>\<open>process.env\<close>
  overridden by \<^verbatim>\<open>defaultFirefoxEnv\<close>.
\<close>

record fxRunnerOptions =
  opt_binary :: "string option"
  opt_binary_args :: "string list"
  opt_no_remote :: bool
  opt_listen :: nat
  opt_foreground :: bool
  opt_profile :: string
  opt_env :: "string \<rightharpoonup> string"
  opt_verbose :: bool

definition defaultFirefoxEnv :: "(string \<times> string) list" where
  "defaultFirefoxEnv =
     [(''XPCOM_DEBUG_BREAK'', ''stack''), (''NS_TRACE_MALLOC_DISABLE_STACKS'', ''1'')]"

text \<open>
  \<^verbatim>\<open>findRemotePort\<close> and \<^verbatim>\<open>fxRunner\<close> are injected; \<^verbatim>\<open>findRemotePort()\<close> is
  given by the outcome of its promise. The result is the outcome of the returned promise
  (the Firefox process) and the list of launches made.
\<close>

record 'f FirefoxRunOptions =
  run_fxRunner :: "fxRunnerOptions \<Rightarrow> js_error + 'f"
  run_findRemotePort :: "js_error + nat"
  run_firefoxBinary :: "string option"
  run_binaryArgs :: "string list"
  run_process_env :: "string \<rightharpoonup> string"

definition firefox_run ::
  "string \<Rightarrow> 'f FirefoxRunOptions \<Rightarrow> (js_error + 'f) \<times> fxRunnerOptions list" where
  "firefox_run profilePath opts =
     (case run_findRemotePort opts of
        Inl error \<Rightarrow> (Inl error, [])
      | Inr remotePort \<Rightarrow>
          (let launch =
                 \<lparr>opt_binary = run_firefoxBinary opts,
                  opt_binary_args = run_binaryArgs opts,
                  opt_no_remote = True,
                  opt_listen = remotePort,
                  opt_foreground = True,
                  opt_profile = profilePath,
                  opt_env = run_process_env opts ++ map_of defaultFirefoxEnv,
                  opt_verbose = True\<rparr>
           in (run_fxRunner opts launch, [launch])))"

subsection \<open>\<^verbatim>\<open>installExtension\<close>\<close>


text \<open>
  The argument object of \<^verbatim>\<open>installExtension\<close>. A field the caller leaves out is
  \<^verbatim>\<open>undefined\<close>: \<open>None\<close>, or \<open>False\<close> for a flag, which is only tested for truth.
  \<^verbatim>\<open>asProxy\<close> is a field that one caller in the repository passes and that this
  function does not read. Of the manifest only \<^verbatim>\<open>applications.gecko.id\<close> is read:
  \<open>None\<close> when \<^verbatim>\<open>applications\<close> or \<^verbatim>\<open>gecko\<close> is missing, \<open>Some None\<close> when only
  the id is.
\<close>

record ExtensionManifest =
  applications_gecko :: "string option option"

record FirefoxProfile =
  profile_path :: string
  extensionsDir :: "string option"

record InstallExtensionParams =
  install_manifestData :: ExtensionManifest
  install_profile :: FirefoxProfile
  install_extensionPath :: "string option"
  install_sourceDir :: "string option"
  install_asShadowInstall :: bool
  install_asProxy :: bool


section \<open>The run command\<close>

text \<open>Sequencing of promises that may reject: \<^verbatim>\<open>await\<close>, or \<^verbatim>\<open>then\<close> with one handler.\<close>

definition andThen :: "js_error + 'a \<Rightarrow> ('a \<Rightarrow> js_error + 'b) \<Rightarrow> js_error + 'b" where
  "andThen p f = (case p of Inl error \<Rightarrow> Inl error | Inr v \<Rightarrow> f v)"

text \<open>
  Modelled from the spec: \<^verbatim>\<open>getManifestId\<close> of the missing \<^verbatim>\<open>src/util/manifest.js\<close>
  gives the application id of the manifest, or \<^verbatim>\<open>undefined\<close>.
\<close>

definition getManifestId :: "ExtensionManifest \<Rightarrow> string option" where
  "getManifestId manifestData =
     (case applications_gecko manifestData of Some (Some i) \<Rightarrow> Some i | _ \<Rightarrow> None)"

text \<open>
  The collaborators injected into the run command, each given by the outcome of the
  promise it returns: \<^verbatim>\<open>getValidatedManifest\<close>, the functions of \<^verbatim>\<open>firefoxApp\<close>,
  \<^verbatim>\<open>firefoxClient\<close>, and the \<^verbatim>\<open>installTemporaryAddon\<close> of the connected client
  (which resolves to the add-on, of which the id is read).
\<close>

type_synonym preferences = "(string \<times> string) list"

record ('c, 'f) run_env =
  env_getValidatedManifest :: "string \<Rightarrow> js_error + ExtensionManifest"
  app_useProfile :: "string \<Rightarrow> preferences option \<Rightarrow> js_error + FirefoxProfile"
  app_copyProfile :: "string \<Rightarrow> preferences option \<Rightarrow> js_error + FirefoxProfile"
  app_createProfile :: "preferences option \<Rightarrow> js_error + FirefoxProfile"
  app_installExtension :: "InstallExtensionParams \<Rightarrow> js_error + unit"
  app_run :: "FirefoxProfile \<Rightarrow> string option \<Rightarrow> string list \<Rightarrow> js_error + 'f"
  env_firefoxClient :: "js_error + 'c"
  client_installTemporaryAddon :: "'c \<Rightarrow> string \<Rightarrow> js_error + string"

datatype start_url = NoUrl | OneUrl string | ManyUrls "string list"

subsection \<open>\<^verbatim>\<open>DefaultExtensionRunner\<close> of \<^verbatim>\<open>src/cmd/run.js\<close>\<close>

record DefaultExtensionRunner =
  xr_sourceDir :: string
  xr_manifestData :: ExtensionManifest
  xr_profilePath :: "string option"
  xr_keepProfileChanges :: bool
  xr_firefox :: "string option"
  xr_browserConsole :: bool
  xr_customPrefs :: preferences
  xr_startUrl :: start_url

definition getProfile :: "('c, 'f) run_env \<Rightarrow> DefaultExtensionRunner \<Rightarrow> js_error + FirefoxProfile" where
  "getProfile firefoxApp runner =
     (case xr_profilePath runner of
        Some profilePath \<Rightarrow>
          if profilePath = [] then
            app_createProfile firefoxApp (Some (xr_customPrefs runner))
          else if xr_keepProfileChanges runner then
            app_useProfile firefoxApp profilePath (Some (xr_customPrefs runner))
          else app_copyProfile firefoxApp profilePath (Some (xr_customPrefs runner))
      | None \<Rightarrow> app_createProfile firefoxApp (Some (xr_customPrefs runner)))"

definition installAsTemporaryAddon ::
  "('c, 'f) run_env \<Rightarrow> DefaultExtensionRunner \<Rightarrow> 'c \<Rightarrow> js_error + string" where
  "installAsTemporaryAddon firefoxApp runner client =
     client_installTemporaryAddon firefoxApp client (xr_sourceDir runner)"

definition installAsProxy ::
  "('c, 'f) run_env \<Rightarrow> DefaultExtensionRunner \<Rightarrow> FirefoxProfile \<Rightarrow> js_error + string option" where
  "installAsProxy firefoxApp runner profile =
     andThen
       (app_installExtension firefoxApp
          \<lparr>install_manifestData = xr_manifestData runner,
           install_profile = profile,
           install_extensionPath = Some (xr_sourceDir runner),
           install_sourceDir = None,
           install_asShadowInstall = False,
           install_asProxy = True\<rparr>)
       (\<lambda>_. Inr (getManifestId (xr_manifestData runner)))"

definition ExtensionRunner_run ::
  "('c, 'f) run_env \<Rightarrow> DefaultExtensionRunner \<Rightarrow> FirefoxProfile \<Rightarrow> js_error + 'f" where
  "ExtensionRunner_run firefoxApp runner profile =
     (let binaryArgs =
            (if xr_browserConsole runner then [''-jsconsole''] else [])
            @ (case xr_startUrl runner of
                 NoUrl \<Rightarrow> []
               | OneUrl url \<Rightarrow> if url = [] then [] else [''--url'', url]
               | ManyUrls urls \<Rightarrow> concat (map (\<lambda>url. [''--url'', url]) urls))
      in app_run firefoxApp profile (xr_firefox runner) binaryArgs)"

subsection \<open>\<^verbatim>\<open>run\<close> of \<^verbatim>\<open>src/cmd/run.js\<close>\<close>

text \<open>
  The command line of \<^verbatim>\<open>run\<close>; a string that may be left out is an option, and
  \<open>argv_stdinIsTTY\<close> says that \<^verbatim>\<open>stdin\<close> is a terminal read stream. The injected
  \<^verbatim>\<open>ExtensionRunner\<close> class is \<^verbatim>\<open>DefaultExtensionRunner\<close>, and the injected
  \<^verbatim>\<open>reloadStrategy\<close> is taken to return normally.
\<close>

record CmdRunParams =
  argv_sourceDir :: string
  argv_artifactsDir :: string
  argv_firefox :: "string option"
  argv_firefoxProfile :: "string option"
  argv_keepProfileChanges :: bool
  argv_preInstall :: bool
  argv_noReload :: bool
  argv_browserConsole :: bool
  argv_customPrefs :: "preferences option"
  argv_startUrl :: start_url
  argv_stdinIsTTY :: bool

text \<open>
  What a successful run has set up: the id of the installed add-on when known, whether
  the reload strategy was started, and whether the key-press loop was spawned.
\<close>

record run_outcome =
  out_addonId :: "string option"
  out_reloadStrategy :: bool
  out_keypressLoop :: bool

definition remoteInstallNotSupportedMessage :: string where
  "remoteInstallNotSupportedMessage =
     ''Temporary add-on installation is not supported in this version ''
     @ ''of Firefox (you need Firefox 49 or higher). For older Firefox ''
     @ ''versions, use --pre-install''"

definition run :: "CmdRunParams \<Rightarrow> ('c, 'f) run_env \<Rightarrow> js_error + run_outcome" where
  "run params env =
     (let noReload = (if argv_preInstall params then True else argv_noReload params);
          requiresRemote = (\<not> argv_preInstall params)
      in
      andThen (env_getValidatedManifest env (argv_sourceDir params)) (\<lambda>manifestData.
      let runner =
            \<lparr>xr_sourceDir = argv_sourceDir params,
             xr_manifestData = manifestData,
             xr_profilePath = argv_firefoxProfile params,
             xr_keepProfileChanges = argv_keepProfileChanges params,
             xr_firefox = argv_firefox params,
             xr_browserConsole = argv_browserConsole params,
             xr_customPrefs = (case argv_customPrefs params of None \<Rightarrow> [] | Some prefs \<Rightarrow> prefs),
             xr_startUrl = argv_startUrl params\<rparr>
      in
      andThen (getProfile env runner) (\<lambda>profile.
      andThen
        (if \<not> argv_preInstall params then Inr (None, False)
         else andThen (installAsProxy env runner profile) (\<lambda>addonId. Inr (addonId, True)))
        (\<lambda>(proxyAddonId, installed).
      andThen (ExtensionRunner_run env runner profile) (\<lambda>runningFirefox.
      if installed then
        Inr \<lparr>out_addonId = proxyAddonId, out_reloadStrategy = False, out_keypressLoop = False\<rparr>
      else if requiresRemote then
        andThen (env_firefoxClient env) (\<lambda>client.
        andThen
          (case installAsTemporaryAddon env runner client of
             Inr addonId \<Rightarrow> Inr addonId
           | Inl error \<Rightarrow>
               if instanceOf error RemoteTempInstallNotSupported then
                 Inl (newWebExtError remoteInstallNotSupportedMessage)
               else Inl error)
          (\<lambda>addonId.
        if noReload then
          Inr \<lparr>out_addonId = Some addonId, out_reloadStrategy = False, out_keypressLoop = False\<rparr>
        else if addonId = [] then
          Inl (newWebExtError
                 ''Unexpected missing addonId in the installAsTemporaryAddon result'')
        else
          Inr \<lparr>out_addonId = Some addonId, out_reloadStrategy = True,
               out_keypressLoop = argv_stdinIsTTY params\<rparr>))
      else
        Inr \<lparr>out_addonId = proxyAddonId, out_reloadStrategy = False,
             out_keypressLoop = False\<rparr>)))))"

subsection \<open>The run command of \<^verbatim>\<open>src/unnamed/part_000\<close>\<close>

record LegacyExtensionRunner =
  lr_sourceDir :: string
  lr_manifestData :: ExtensionManifest
  lr_firefoxProfile :: "string option"
  lr_firefoxBinary :: "string option"

definition getProfile_legacy ::
  "('c, 'f) run_env \<Rightarrow> LegacyExtensionRunner \<Rightarrow> js_error + FirefoxProfile" where
  "getProfile_legacy firefox runner =
     (case lr_firefoxProfile runner of
        Some firefoxProfile \<Rightarrow>
          if firefoxProfile = [] then app_createProfile firefox None
          else app_copyProfile firefox firefoxProfile None
      | None \<Rightarrow> app_createProfile firefox None)"

definition installAsTemporaryAddon_legacy ::
  "('c, 'f) run_env \<Rightarrow> LegacyExtensionRunner \<Rightarrow> 'c \<Rightarrow> js_error + string" where
  "installAsTemporaryAddon_legacy firefox runner client =
     client_installTemporaryAddon firefox client (lr_sourceDir runner)"

text \<open>
  \<^verbatim>\<open>installAsTextFileInProfile\<close> hands \<^verbatim>\<open>firefox.installExtension\<close>, an injected
  function, the shadow-install request.
\<close>

definition installAsTextFileInProfile ::
  "(InstallExtensionParams \<Rightarrow> 'r) \<Rightarrow> LegacyExtensionRunner \<Rightarrow> FirefoxProfile \<Rightarrow> 'r" where
  "installAsTextFileInProfile firefox_installExtension runner profile =
     firefox_installExtension
       \<lparr>install_manifestData = lr_manifestData runner,
        install_profile = profile,
        install_extensionPath = None,
        install_sourceDir = Some (lr_sourceDir runner),
        install_asShadowInstall = True,
        install_asProxy = False\<rparr>"

record LegacyRunParams =
  legacy_sourceDir :: string
  legacy_artifactsDir :: string
  legacy_firefoxBinary :: "string option"
  legacy_firefoxProfile :: "string option"
  legacy_installToProfile :: bool
  legacy_noReload :: bool

definition installToProfileMessage :: string where
  "installToProfileMessage =
     ''Temporary add-on installation is not supported in this version ''
     @ ''of Firefox (you need Firefox 49 or higher). For older Firefox ''
     @ ''versions, use --install-to-profile''"

text \<open>
  The promise chain of the older \<^verbatim>\<open>run\<close>; its single \<^verbatim>\<open>catch\<close> sits after the
  temporary installation and so sees a rejection of any earlier step. The result is the
  Firefox process and whether the reload strategy was started.
\<close>

definition run_legacy :: "LegacyRunParams \<Rightarrow> ('c, 'f) run_env \<Rightarrow> js_error + 'f \<times> bool" where
  "run_legacy params env =
     (let createRunner =
            andThen (env_getValidatedManifest env (legacy_sourceDir params)) (\<lambda>manifestData.
              Inr \<lparr>lr_sourceDir = legacy_sourceDir params,
                   lr_manifestData = manifestData,
                   lr_firefoxProfile = legacy_firefoxProfile params,
                   lr_firefoxBinary = legacy_firefoxBinary params\<rparr>);
          chain =
            andThen createRunner (\<lambda>runner.
            andThen (getProfile_legacy env runner) (\<lambda>profile.
            andThen
              (if \<not> legacy_installToProfile params then Inr False
               else andThen
                      (installAsTextFileInProfile (app_installExtension env) runner profile)
                      (\<lambda>_. Inr True))
              (\<lambda>installed.
            andThen (app_run env profile (lr_firefoxBinary runner) []) (\<lambda>firefox.
            andThen (env_firefoxClient env) (\<lambda>client.
            andThen
              (if installed then Inr ()
               else andThen (installAsTemporaryAddon_legacy env runner client) (\<lambda>_. Inr ()))
              (\<lambda>_. Inr (firefox, profile, client)))))));
          caught =
            (case chain of
               Inr config \<Rightarrow> Inr config
             | Inl error \<Rightarrow>
                 onlyInstancesOf RemoteTempInstallNotSupported
                   (\<lambda>error. Inl (newWebExtError installToProfileMessage)) error)
      in andThen caught (\<lambda>(firefox, profile, client). Inr (firefox, \<not> legacy_noReload params)))"

section \<open>The Chromium runner and its reload channel\<close>

text \<open>
  Modelled from the spec: the class \<^verbatim>\<open>ChromiumExtensionRunner\<close> of the missing
  \<^verbatim>\<open>src/extension-runners/chromium.js\<close>; only its test is among the sources. The
  runner owns a WebSocket server with any number of companion connections, each open or
  closed; a connection is modelled with the control messages it has received, in order.
  The only control message is the instruction to reload every extension, of shape
  \<^verbatim>\<open>{type: "webExtReloadAllExtensions"}\<close>.
\<close>

datatype ready_state = OPEN | CLOSED

record control_message =
  msg_type :: string

record companion_socket =
  readyState :: ready_state
  received :: "control_message list"

record ChromiumExtensionRunner =
  chromium_sourceDirs :: "string list"
  wss_clients :: "companion_socket list"

text \<open>
  Modelled from the spec: a control message is broadcast to every connection that is
  currently open; a closed connection is skipped and does not block the others.
\<close>

definition wssBroadcast :: "control_message \<Rightarrow> ChromiumExtensionRunner \<Rightarrow> ChromiumExtensionRunner" where
  "wssBroadcast msg runner =
     runner\<lparr>wss_clients :=
       map (\<lambda>client. if readyState client = OPEN
                      then client\<lparr>received := received client @ [msg]\<rparr>
                      else client)
         (wss_clients runner)\<rparr>"

text \<open>
  Modelled from the spec: \<^verbatim>\<open>reloadAllExtensions\<close> of the Chromium runner is one
  broadcast of the reload-all message and resolves to the runner's one result;
  \<^verbatim>\<open>reloadExtensionBySourceDir\<close> cannot target one extension and degrades to reloading
  everything.
\<close>

definition Chromium_reloadAllExtensions ::
  "ChromiumExtensionRunner \<Rightarrow> ExtensionRunnerReloadResult list \<times> ChromiumExtensionRunner" where
  "Chromium_reloadAllExtensions runner =
     ([\<lparr>runnerName = ''Chromium'', reloadError = None, result_sourceDir = None\<rparr>],
      wssBroadcast \<lparr>msg_type = ''webExtReloadAllExtensions''\<rparr> runner)"

definition Chromium_reloadExtensionBySourceDir ::
  "ChromiumExtensionRunner \<Rightarrow> string
     \<Rightarrow> ExtensionRunnerReloadResult list \<times> ChromiumExtensionRunner" where
  "Chromium_reloadExtensionBySourceDir runner extensionSourceDir =
     Chromium_reloadAllExtensions runner"

section \<open>Concrete inputs\<close>

text \<open>A free port and a busy one, as the probe connection sees them, and launch options.\<close>

definition probeFreePort :: "nat \<Rightarrow> js_error + string" where
  "probeFreePort port = Inl connectionRefused"

definition probeBusyPort :: "nat \<Rightarrow> js_error + string" where
  "probeBusyPort port = Inr ''probe client''"

definition someRunOptions :: "string FirefoxRunOptions" where
  "someRunOptions =
     \<lparr>run_fxRunner = (\<lambda>launch. Inr ''firefox process''),
      run_findRemotePort = Inr 6005,
      run_firefoxBinary = None,
      run_binaryArgs = [],
      run_process_env = Map.empty\<rparr>"




definition minimalManifest :: ExtensionManifest where
  "minimalManifest = \<lparr>applications_gecko = Some (Some ''minimal-example@web-ext-test-suite'')\<rparr>"

text \<open>
  Collaborators of the run command for a Firefox too old for temporary installation, as
  the repository's test sets them up, and the command lines of a plain run.
\<close>

definition someProfile :: FirefoxProfile where
  "someProfile = \<lparr>profile_path = ''/profile'', extensionsDir = Some ''/profile/extensions''\<rparr>"

definition oldFirefox :: "(string, string) run_env" where
  "oldFirefox =
     \<lparr>env_getValidatedManifest = (\<lambda>dir. Inr minimalManifest),
      app_useProfile = (\<lambda>p prefs. Inr someProfile),
      app_copyProfile = (\<lambda>p prefs. Inr someProfile),
      app_createProfile = (\<lambda>prefs. Inr someProfile),
      app_installExtension = (\<lambda>p. Inr ()),
      app_run = (\<lambda>profile binary args. Inr ''firefox process''),
      env_firefoxClient = Inr ''client'',
      client_installTemporaryAddon =
        (\<lambda>client dir. Inl (ErrorObject RemoteTempInstallNotSupported [] None))\<rparr>"

definition plainRun :: CmdRunParams where
  "plainRun =
     \<lparr>argv_sourceDir = ''/path/to/minimal-web-ext'',
      argv_artifactsDir = ''/path/to/minimal-web-ext/web-ext-artifacts'',
      argv_firefox = None,
      argv_firefoxProfile = None,
      argv_keepProfileChanges = False,
      argv_preInstall = False,
      argv_noReload = True,
      argv_browserConsole = False,
      argv_customPrefs = None,
      argv_startUrl = NoUrl,
      argv_stdinIsTTY = False\<rparr>"

definition plainRun_legacy :: LegacyRunParams where
  "plainRun_legacy =
     \<lparr>legacy_sourceDir = ''/path/to/minimal-web-ext'',
      legacy_artifactsDir = ''/path/to/minimal-web-ext/web-ext-artifacts'',
      legacy_firefoxBinary = None,
      legacy_firefoxProfile = None,
      legacy_installToProfile = False,
      legacy_noReload = True\<rparr>"



text \<open>A Chromium runner with two open companion connections and a closed one.\<close>

definition chromiumWithSockets :: ChromiumExtensionRunner where
  "chromiumWithSockets =
     \<lparr>chromium_sourceDirs = [''/fake/sourceDir''],
      wss_clients =
        [\<lparr>readyState = OPEN, received = []\<rparr>,
         \<lparr>readyState = CLOSED, received = []\<rparr>,
         \<lparr>readyState = OPEN, received = [\<lparr>msg_type = ''webExtReloadAllExtensions''\<rparr>]\<rparr>]\<rparr>"

section \<open>Properties of errors\<close>

lemma isErrorWithCode_ErrorObject [simp]:
  "isErrorWithCode codeWanted (ErrorObject c m k) \<longleftrightarrow> k = Some codeWanted"
  by (simp add: isErrorWithCode_def)

lemma instanceOf_ErrorObject [simp]:
  "instanceOf (ErrorObject c m k) cls \<longleftrightarrow> subclassOf c cls"
  by (simp add: instanceOf_def)

section \<open>Properties of the connection retrier\<close>

lemma advance_0: "advance st 0 i = st"
  by (simp add: advance_def)

lemma advance_Suc:
  "advance (st\<lparr>callCount := callCount st + 1, slept := slept st + i\<rparr>) k i = advance st (Suc k) i"
  by (simp add: advance_def algebra_simps)

lemma callCount_advance: "callCount (advance st k i) = callCount st + k"
  by (simp add: advance_def)

lemma establishConnection_refused_prefix:
  assumes "\<forall>n<k. refused (connect (callCount st + n))"
    and "retries + int k \<le> maxRetries + 1"
  shows "establishConnection connect maxRetries i retries lastError st =
         establishConnection connect maxRetries i (retries + int k)
           (if k = 0 then lastError else Some (projl (connect (callCount st + k - 1))))
           (advance st k i)"
  using assms
proof (induction k arbitrary: retries lastError st)
  case 0
  then show ?case by (simp add: advance_0)
next
  case (Suc k)
  from Suc.prems(1) have r0: "refused (connect (callCount st))"
    by (metis add.right_neutral zero_less_Suc)
  then obtain error where e: "connect (callCount st) = Inl error"
    and ec: "isErrorWithCode ''ECONNREFUSED'' error"
    by (auto simp: refused_def split: sum.splits)
  let ?st = "st\<lparr>callCount := callCount st + 1, slept := slept st + i\<rparr>"
  have le: "retries \<le> maxRetries" using Suc.prems(2) by simp
  have step: "establishConnection connect maxRetries i retries lastError st =
      establishConnection connect maxRetries i (retries + 1) (Some error) ?st"
    using le e ec by (subst establishConnection.simps) simp
  have pre: "\<forall>n<k. refused (connect (callCount ?st + n))"
    using Suc.prems(1) by (auto simp: less_Suc_eq_0_disj)
  have "establishConnection connect maxRetries i (retries + 1) (Some error) ?st =
        establishConnection connect maxRetries i (retries + 1 + int k)
           (if k = 0 then Some error else Some (projl (connect (callCount ?st + k - 1))))
           (advance ?st k i)"
    using Suc.prems(2) by (intro Suc.IH[OF pre]) simp
  moreover have "(if k = 0 then Some error else Some (projl (connect (callCount ?st + k - 1))))
      = Some (projl (connect (callCount st + Suc k - 1)))"
    using e by (cases k) simp_all
  moreover have "advance ?st k i = advance st (Suc k) i"
    by (simp add: advance_def algebra_simps)
  moreover have "retries + 1 + int k = retries + int (Suc k)"
    by simp
  ultimately show ?case
    using step by (simp only: nat.simps if_False)
qed

lemma establishConnection_legacy_refused_prefix:
  assumes "\<forall>n<k. refused (connect (callCount st + n))"
    and "retries + int k \<le> maxRetries"
  shows "establishConnection_legacy connect maxRetries i retries st =
         establishConnection_legacy connect maxRetries i (retries + int k) (advance st k i)"
  using assms
proof (induction k arbitrary: retries st)
  case 0
  then show ?case by (simp add: advance_0)
next
  case (Suc k)
  from Suc.prems(1) have r0: "refused (connect (callCount st))"
    by (metis add.right_neutral zero_less_Suc)
  then obtain error where e: "connect (callCount st) = Inl error"
    and ec: "isErrorWithCode ''ECONNREFUSED'' error"
    by (auto simp: refused_def split: sum.splits)
  let ?st = "st\<lparr>callCount := callCount st + 1, slept := slept st + i\<rparr>"
  have lt: "\<not> retries \<ge> maxRetries" using Suc.prems(2) by simp
  have step: "establishConnection_legacy connect maxRetries i retries st =
      establishConnection_legacy connect maxRetries i (retries + 1) ?st"
    using lt e ec by (subst establishConnection_legacy.simps) simp
  have pre: "\<forall>n<k. refused (connect (callCount ?st + n))"
    using Suc.prems(1) by (auto simp: less_Suc_eq_0_disj)
  have "establishConnection_legacy connect maxRetries i (retries + 1) ?st =
        establishConnection_legacy connect maxRetries i (retries + 1 + int k) (advance ?st k i)"
    using Suc.prems(2) by (intro Suc.IH[OF pre]) simp
  moreover have "advance ?st k i = advance st (Suc k) i"
    by (simp add: advance_def algebra_simps)
  moreover have "retries + 1 + int k = retries + int (Suc k)"
    by simp
  ultimately show ?case
    using step by (simp only:)
qed

lemma establishConnection_past_budget:
  "maxRetries < retries \<Longrightarrow>
   establishConnection connect maxRetries i retries lastError st =
     (Inl (case lastError of None \<Rightarrow> ThrownUndefined | Some error \<Rightarrow> Thrown error), st)"
  by (subst establishConnection.simps) simp

lemma establishConnection_all_refused:
  assumes "0 \<le> maxRetries" and "\<forall>n \<le> nat maxRetries. refused (connect n)"
  shows "establishConnection connect maxRetries i 0 None initial_retrier_state =
         (Inl (Thrown (projl (connect (nat maxRetries)))),
          \<lparr>callCount = nat maxRetries + 1, slept = (maxRetries + 1) * i\<rparr>)"
proof -
  let ?k = "nat maxRetries + 1"
  have pre: "\<forall>n < ?k. refused (connect (callCount initial_retrier_state + n))"
    using assms(2) by (simp add: initial_retrier_state_def)
  have "establishConnection connect maxRetries i 0 None initial_retrier_state =
        establishConnection connect maxRetries i (0 + int ?k)
          (if ?k = 0 then None else Some (projl (connect (callCount initial_retrier_state + ?k - 1))))
          (advance initial_retrier_state ?k i)"
    using assms(1) by (intro establishConnection_refused_prefix[OF pre]) simp
  also have "\<dots> = (Inl (Thrown (projl (connect (nat maxRetries)))),
      advance initial_retrier_state ?k i)"
    using assms(1)
    by (subst establishConnection_past_budget) (simp_all add: initial_retrier_state_def)
  finally show ?thesis
    using assms(1) by (simp add: advance_def initial_retrier_state_def)
qed

lemma establishConnection_settles_at:
  assumes "int k \<le> maxRetries" and "\<forall>n < k. refused (connect n)" and "\<not> refused (connect k)"
  shows "establishConnection connect maxRetries i 0 None initial_retrier_state =
         (map_sum Thrown id (connect k), \<lparr>callCount = k + 1, slept = int k * i\<rparr>)"
proof -
  have pre: "\<forall>n < k. refused (connect (callCount initial_retrier_state + n))"
    using assms(2) by (simp add: initial_retrier_state_def)
  have "establishConnection connect maxRetries i 0 None initial_retrier_state =
        establishConnection connect maxRetries i (0 + int k)
          (if k = 0 then None else Some (projl (connect (callCount initial_retrier_state + k - 1))))
          (advance initial_retrier_state k i)"
    using assms(1) by (intro establishConnection_refused_prefix[OF pre]) simp
  also have "\<dots> = (map_sum Thrown id (connect k), \<lparr>callCount = k + 1, slept = int k * i\<rparr>)"
    using assms(1,3)
    by (subst establishConnection.simps)
       (auto simp: advance_def initial_retrier_state_def refused_def split: sum.splits)
  finally show ?thesis .
qed

lemma establishConnection_legacy_all_refused:
  assumes "0 \<le> maxRetries" and "\<forall>n \<le> nat maxRetries. refused (connect n)"
  shows "establishConnection_legacy connect maxRetries i 0 initial_retrier_state =
         (Inl (projl (connect (nat maxRetries))),
          \<lparr>callCount = nat maxRetries + 1, slept = maxRetries * i\<rparr>)"
proof -
  let ?k = "nat maxRetries"
  have pre: "\<forall>n < ?k. refused (connect (callCount initial_retrier_state + n))"
    using assms(2) by (simp add: initial_retrier_state_def)
  have last: "refused (connect ?k)" using assms(2) by simp
  have "establishConnection_legacy connect maxRetries i 0 initial_retrier_state =
        establishConnection_legacy connect maxRetries i (0 + int ?k)
          (advance initial_retrier_state ?k i)"
    using assms(1) by (intro establishConnection_legacy_refused_prefix[OF pre]) simp
  also have "\<dots> = (Inl (projl (connect ?k)),
          \<lparr>callCount = nat maxRetries + 1, slept = maxRetries * i\<rparr>)"
    using assms(1) last
    by (subst establishConnection_legacy.simps)
       (auto simp: advance_def initial_retrier_state_def refused_def split: sum.splits)
  finally show ?thesis .
qed

lemma establishConnection_legacy_settles_at:
  assumes "int k \<le> maxRetries" and "\<forall>n < k. refused (connect n)" and "\<not> refused (connect k)"
  shows "establishConnection_legacy connect maxRetries i 0 initial_retrier_state =
         (connect k, \<lparr>callCount = k + 1, slept = int k * i\<rparr>)"
proof -
  have pre: "\<forall>n < k. refused (connect (callCount initial_retrier_state + n))"
    using assms(2) by (simp add: initial_retrier_state_def)
  have "establishConnection_legacy connect maxRetries i 0 initial_retrier_state =
        establishConnection_legacy connect maxRetries i (0 + int k)
          (advance initial_retrier_state k i)"
    using assms(1) by (intro establishConnection_legacy_refused_prefix[OF pre]) simp
  also have "\<dots> = (connect k, \<lparr>callCount = k + 1, slept = int k * i\<rparr>)"
    using assms(1,3)
    by (subst establishConnection_legacy.simps)
       (auto simp: advance_def initial_retrier_state_def refused_def split: sum.splits)
  finally show ?thesis .
qed

lemma establishConnection_callCount_le:
  "callCount (snd (establishConnection connect maxRetries i retries lastError st))
     \<le> callCount st + nat (maxRetries + 1 - retries)"
proof (induction connect maxRetries i retries lastError st rule: establishConnection.induct)
  case (1 connect maxRetries i retries lastError st)
  show ?case
  proof (cases "retries \<le> maxRetries")
    case False
    then show ?thesis by (subst establishConnection.simps) simp
  next
    case True
    show ?thesis
    proof (cases "connect (callCount st)")
      case (Inr client)
      with True show ?thesis by (subst establishConnection.simps) simp
    next
      case (Inl error)
      show ?thesis
      proof (cases "isErrorWithCode ''ECONNREFUSED'' error")
        case False
        with True Inl show ?thesis by (subst establishConnection.simps) simp
      next
        case ec: True
        from "1.IH"[OF True Inl ec] True Inl ec show ?thesis
          by (subst establishConnection.simps) (simp add: nat_le_iff)
      qed
    qed
  qed
qed

lemma establishConnection_legacy_callCount_le:
  "callCount (snd (establishConnection_legacy connect maxRetries i retries st))
     \<le> callCount st + nat (maxRetries - retries) + 1"
proof (induction connect maxRetries i retries st rule: establishConnection_legacy.induct)
  case (1 connect maxRetries i retries st)
  show ?case
  proof (cases "connect (callCount st)")
    case (Inr client)
    then show ?thesis by (subst establishConnection_legacy.simps) simp
  next
    case (Inl error)
    show ?thesis
    proof (cases "isErrorWithCode ''ECONNREFUSED'' error \<and> \<not> maxRetries \<le> retries")
      case False
      with Inl show ?thesis by (subst establishConnection_legacy.simps) auto
    next
      case True
      have "nat (maxRetries - (retries + 1)) + 1 = nat (maxRetries - retries)"
        using True by linarith
      with "1.IH"[OF Inl] True Inl show ?thesis
        by (subst establishConnection_legacy.simps) simp
    qed
  qed
qed

lemma refused_Inl_projl: "refused r \<Longrightarrow> Inl (projl r) = r"
  by (cases r) (simp_all add: refused_def)

text \<open>
  Claim C1. With a retry budget \<open>maxRetries = m \<ge> 0\<close>: when the attempts
  \<open>0, \<dots>, m\<close> are all refused, \<^verbatim>\<open>connectToFirefox\<close> is invoked exactly
  \<open>m + 1\<close> times and the call fails with the error of the last attempt, the last
  refusal; when \<open>k \<le> m\<close> refusals are followed by a success, it is invoked exactly
  \<open>k + 1\<close> times and the call resolves with the connected client. Both retriers of
  the repository behave so. The witness instantiates \<open>m = 2\<close>, always refused
  (3 invocations), and \<open>m = 3\<close> with three refusals then a success (4 invocations).
\<close>

theorem retrier_attempts_maxRetries_plus_one:
  fixes connect :: "'c connector"
  assumes "0 \<le> m"
  shows "((\<forall>n \<le> nat m. refused (connect n)) \<longrightarrow>
            (\<exists>error. connect (nat m) = Inl error
              \<and> defaultFirefoxClient
                  \<lparr>param_connectToFirefox = connect, param_maxRetries = Some m,
                   param_retryInterval = Some i\<rparr>
                  = (Inl (Thrown error), \<lparr>callCount = nat m + 1, slept = (m + 1) * i\<rparr>)
              \<and> defaultFirefoxClient_legacy
                  \<lparr>param_connectToFirefox = connect, param_maxRetries = Some m,
                   param_retryInterval = Some i\<rparr>
                  = (Inl error, \<lparr>callCount = nat m + 1, slept = m * i\<rparr>)))
       \<and> (int k \<le> m \<and> (\<forall>n < k. refused (connect n)) \<and> connect k = Inr client \<longrightarrow>
            defaultFirefoxClient
              \<lparr>param_connectToFirefox = connect, param_maxRetries = Some m,
               param_retryInterval = Some i\<rparr>
              = (Inr client, \<lparr>callCount = k + 1, slept = int k * i\<rparr>)
          \<and> defaultFirefoxClient_legacy
              \<lparr>param_connectToFirefox = connect, param_maxRetries = Some m,
               param_retryInterval = Some i\<rparr>
              = (Inr client, \<lparr>callCount = k + 1, slept = int k * i\<rparr>))"
proof (intro conjI impI)
  assume all: "\<forall>n \<le> nat m. refused (connect n)"
  then have last: "Inl (projl (connect (nat m))) = connect (nat m)"
    by (simp add: refused_Inl_projl)
  have new: "defaultFirefoxClient
          \<lparr>param_connectToFirefox = connect, param_maxRetries = Some m,
           param_retryInterval = Some i\<rparr>
        = (Inl (Thrown (projl (connect (nat m)))),
           \<lparr>callCount = nat m + 1, slept = (m + 1) * i\<rparr>)"
    using establishConnection_all_refused[OF assms all, of i]
    by (simp add: defaultFirefoxClient_def)
  have old: "defaultFirefoxClient_legacy
          \<lparr>param_connectToFirefox = connect, param_maxRetries = Some m,
           param_retryInterval = Some i\<rparr>
        = (Inl (projl (connect (nat m))), \<lparr>callCount = nat m + 1, slept = m * i\<rparr>)"
    using establishConnection_legacy_all_refused[OF assms all, of i]
    by (simp add: defaultFirefoxClient_legacy_def)
  from last[symmetric] new old
  show "\<exists>error. connect (nat m) = Inl error
      \<and> defaultFirefoxClient
          \<lparr>param_connectToFirefox = connect, param_maxRetries = Some m,
           param_retryInterval = Some i\<rparr>
          = (Inl (Thrown error), \<lparr>callCount = nat m + 1, slept = (m + 1) * i\<rparr>)
      \<and> defaultFirefoxClient_legacy
          \<lparr>param_connectToFirefox = connect, param_maxRetries = Some m,
           param_retryInterval = Some i\<rparr>
          = (Inl error, \<lparr>callCount = nat m + 1, slept = m * i\<rparr>)"
    by blast
next
  assume h: "int k \<le> m \<and> (\<forall>n < k. refused (connect n)) \<and> connect k = Inr client"
  then have nr: "\<not> refused (connect k)" by (simp add: refused_def)
  show "defaultFirefoxClient
          \<lparr>param_connectToFirefox = connect, param_maxRetries = Some m,
           param_retryInterval = Some i\<rparr>
        = (Inr client, \<lparr>callCount = k + 1, slept = int k * i\<rparr>)"
    using establishConnection_settles_at[of k m connect i] h nr
    by (simp add: defaultFirefoxClient_def)
  show "defaultFirefoxClient_legacy
          \<lparr>param_connectToFirefox = connect, param_maxRetries = Some m,
           param_retryInterval = Some i\<rparr>
        = (Inr client, \<lparr>callCount = k + 1, slept = int k * i\<rparr>)"
    using establishConnection_legacy_settles_at[of k m connect i] h nr
    by (simp add: defaultFirefoxClient_legacy_def)
qed

theorem retrier_attempts_maxRetries_plus_one_witness:
  "defaultFirefoxClient
     \<lparr>param_connectToFirefox = (\<lambda>n. Inl connectionRefused :: js_error + string),
      param_maxRetries = Some 2, param_retryInterval = Some 1\<rparr>
     = (Inl (Thrown connectionRefused), \<lparr>callCount = 3, slept = 3\<rparr>)
   \<and> defaultFirefoxClient_legacy
     \<lparr>param_connectToFirefox = (\<lambda>n. Inl connectionRefused :: js_error + string),
      param_maxRetries = Some 2, param_retryInterval = Some 1\<rparr>
     = (Inl connectionRefused, \<lparr>callCount = 3, slept = 2\<rparr>)
   \<and> defaultFirefoxClient
     \<lparr>param_connectToFirefox = (\<lambda>n. if n < 3 then Inl connectionRefused else Inr ''client''),
      param_maxRetries = Some 3, param_retryInterval = Some 1\<rparr>
     = (Inr ''client'', \<lparr>callCount = 4, slept = 3\<rparr>)
   \<and> defaultFirefoxClient_legacy
     \<lparr>param_connectToFirefox = (\<lambda>n. if n < 3 then Inl connectionRefused else Inr ''client''),
      param_maxRetries = Some 3, param_retryInterval = Some 1\<rparr>
     = (Inr ''client'', \<lparr>callCount = 4, slept = 3\<rparr>)"
  using retrier_attempts_maxRetries_plus_one
          [of 2 "\<lambda>n. Inl connectionRefused :: js_error + string" 1 0 "''x''"]
        retrier_attempts_maxRetries_plus_one
          [of 3 "\<lambda>n. if n < 3 then Inl connectionRefused else Inr ''client''" 1 3 "''client''"]
  by (simp add: refused_def connectionRefused_def)

text \<open>
  Claim C4. Only refusals are retried: when \<open>k\<close> refused attempts are followed by an
  attempt that fails with an error whose code is not \<^verbatim>\<open>ECONNREFUSED\<close>, the call
  fails with that very error after exactly \<open>k + 1\<close> invocations, whatever remains of
  the budget \<open>m \<ge> k\<close>.
\<close>

theorem retrier_aborts_on_other_errors:
  fixes connect :: "'c connector"
  assumes "int k \<le> m"
    and "\<forall>n < k. refused (connect n)"
    and "connect k = Inl error"
    and "\<not> isErrorWithCode ''ECONNREFUSED'' error"
  shows "defaultFirefoxClient
           \<lparr>param_connectToFirefox = connect, param_maxRetries = Some m,
            param_retryInterval = Some i\<rparr>
           = (Inl (Thrown error), \<lparr>callCount = k + 1, slept = int k * i\<rparr>)
       \<and> defaultFirefoxClient_legacy
           \<lparr>param_connectToFirefox = connect, param_maxRetries = Some m,
            param_retryInterval = Some i\<rparr>
           = (Inl error, \<lparr>callCount = k + 1, slept = int k * i\<rparr>)"
proof -
  have nr: "\<not> refused (connect k)"
    using assms(3,4) by (simp add: refused_def)
  show ?thesis
    using establishConnection_settles_at[OF assms(1,2) nr, of i]
      establishConnection_legacy_settles_at[OF assms(1,2) nr, of i] assms(3)
    by (simp add: defaultFirefoxClient_def defaultFirefoxClient_legacy_def)
qed

theorem retrier_aborts_on_other_errors_witness:
  "defaultFirefoxClient
     \<lparr>param_connectToFirefox =
        (\<lambda>n. if n < 1 then Inl connectionRefused else Inl handshakeError :: js_error + string),
      param_maxRetries = Some 250, param_retryInterval = Some 120\<rparr>
     = (Inl (Thrown handshakeError), \<lparr>callCount = 2, slept = 120\<rparr>)
   \<and> defaultFirefoxClient_legacy
     \<lparr>param_connectToFirefox =
        (\<lambda>n. if n < 1 then Inl connectionRefused else Inl handshakeError :: js_error + string),
      param_maxRetries = Some 250, param_retryInterval = Some 120\<rparr>
     = (Inl handshakeError, \<lparr>callCount = 2, slept = 120\<rparr>)"
  using retrier_aborts_on_other_errors
          [of 1 250 "\<lambda>n. if n < 1 then Inl connectionRefused else Inl handshakeError :: js_error + string"
              handshakeError 120]
  by (simp add: refused_def connectionRefused_def handshakeError_def)

text \<open>
  Claim C5 as stated fails: with no retry configuration and a port that always refuses,
  the retrier of \<^verbatim>\<open>src/cmd/run.js\<close> makes 251 attempts, not at most 250, and the
  other retrier of the repository stops after 26, so the two do not share one policy.
\<close>

theorem default_retry_policy_counterexample:
  "\<not> callCount (snd (defaultFirefoxClient
        \<lparr>param_connectToFirefox = (\<lambda>n. Inl connectionRefused :: js_error + string),
         param_maxRetries = None, param_retryInterval = None\<rparr>)) \<le> 250
   \<and> callCount (snd (defaultFirefoxClient_legacy
        \<lparr>param_connectToFirefox = (\<lambda>n. Inl connectionRefused :: js_error + string),
         param_maxRetries = None, param_retryInterval = None\<rparr>)) = 26"
  using establishConnection_all_refused[of 250 "\<lambda>n. Inl connectionRefused :: js_error + string" 120]
    establishConnection_legacy_all_refused[of 25 "\<lambda>n. Inl connectionRefused :: js_error + string" 120]
  by (simp add: defaultFirefoxClient_def defaultFirefoxClient_legacy_def refused_def
      connectionRefused_def)

text \<open>
  Claim C5, amended. With no retry configuration the retrier of
  \<^verbatim>\<open>src/cmd/run.js\<close> sleeps 120 ms after each refusal and allows 250 retries: at most
  251 attempts, and exactly 251 attempts and 30120 ms of sleeping when every attempt is
  refused. The other retrier of the repository defaults to 25 retries of 120 ms: at most
  26 attempts, and exactly 26 attempts and 3000 ms of sleeping when every attempt is
  refused.
\<close>

theorem default_retry_policy:
  fixes connect :: "'c connector"
  shows "callCount (snd (defaultFirefoxClient
            \<lparr>param_connectToFirefox = connect, param_maxRetries = None,
             param_retryInterval = None\<rparr>)) \<le> 251
       \<and> callCount (snd (defaultFirefoxClient_legacy
            \<lparr>param_connectToFirefox = connect, param_maxRetries = None,
             param_retryInterval = None\<rparr>)) \<le> 26
       \<and> ((\<forall>n. refused (connect n)) \<longrightarrow>
            snd (defaultFirefoxClient
              \<lparr>param_connectToFirefox = connect, param_maxRetries = None,
               param_retryInterval = None\<rparr>)
              = \<lparr>callCount = 251, slept = 30120\<rparr>
          \<and> snd (defaultFirefoxClient_legacy
              \<lparr>param_connectToFirefox = connect, param_maxRetries = None,
               param_retryInterval = None\<rparr>)
              = \<lparr>callCount = 26, slept = 3000\<rparr>)"
proof (intro conjI impI)
  show "callCount (snd (defaultFirefoxClient
            \<lparr>param_connectToFirefox = connect, param_maxRetries = None,
             param_retryInterval = None\<rparr>)) \<le> 251"
    using establishConnection_callCount_le[of connect 250 120 0 None initial_retrier_state]
    by (simp add: defaultFirefoxClient_def initial_retrier_state_def)
  show "callCount (snd (defaultFirefoxClient_legacy
            \<lparr>param_connectToFirefox = connect, param_maxRetries = None,
             param_retryInterval = None\<rparr>)) \<le> 26"
    using establishConnection_legacy_callCount_le[of connect 25 120 0 initial_retrier_state]
    by (simp add: defaultFirefoxClient_legacy_def initial_retrier_state_def)
next
  assume all: "\<forall>n. refused (connect n)"
  show "snd (defaultFirefoxClient
          \<lparr>param_connectToFirefox = connect, param_maxRetries = None,
           param_retryInterval = None\<rparr>)
        = \<lparr>callCount = 251, slept = 30120\<rparr>"
    using establishConnection_all_refused[of 250 connect 120] all
    by (simp add: defaultFirefoxClient_def)
  show "snd (defaultFirefoxClient_legacy
          \<lparr>param_connectToFirefox = connect, param_maxRetries = None,
           param_retryInterval = None\<rparr>)
        = \<lparr>callCount = 26, slept = 3000\<rparr>"
    using establishConnection_legacy_all_refused[of 25 connect 120] all
    by (simp add: defaultFirefoxClient_legacy_def)
qed

theorem default_retry_policy_witness:
  "snd (defaultFirefoxClient
     \<lparr>param_connectToFirefox = (\<lambda>n. Inl connectionRefused :: js_error + string),
      param_maxRetries = None, param_retryInterval = None\<rparr>)
     = \<lparr>callCount = 251, slept = 30120\<rparr>
   \<and> snd (defaultFirefoxClient_legacy
     \<lparr>param_connectToFirefox = (\<lambda>n. Inl connectionRefused :: js_error + string),
      param_maxRetries = None, param_retryInterval = None\<rparr>)
     = \<lparr>callCount = 26, slept = 3000\<rparr>"
  using default_retry_policy[of "\<lambda>n. Inl connectionRefused :: js_error + string"]
  by (simp add: refused_def connectionRefused_def)

section \<open>Properties of promises and of \<^verbatim>\<open>MultiExtensionRunner\<close>\<close>

lemma foldl_push: "foldl (\<lambda>promises runner. promises @ [f runner]) acc rs = acc @ map f rs"
  by (induction rs arbitrary: acc) simp_all

lemma latest_ge: "t \<in> set ts \<Longrightarrow> t \<le> latest ts"
  by (induction ts) auto

lemma firstRejection_None_iff:
  "firstRejection ps = None \<longleftrightarrow> (\<forall>t error. Rejected t error \<notin> set ps)"
proof (induction ps)
  case Nil
  show ?case by simp
next
  case (Cons p ps)
  then show ?case
    by (cases p) (auto split: option.splits)
qed

lemma firstRejection_Some:
  "firstRejection ps = Some (t, error) \<Longrightarrow>
     Rejected t error \<in> set ps \<and> (\<forall>t' error'. Rejected t' error' \<in> set ps \<longrightarrow> t \<le> t')"
proof (induction ps arbitrary: t error)
  case Nil
  then show ?case by simp
next
  case (Cons p ps)
  show ?case
  proof (cases p)
    case Pending
    with Cons show ?thesis by auto
  next
    case (Fulfilled t1 v)
    with Cons show ?thesis by auto
  next
    case (Rejected t1 e1)
    show ?thesis
    proof (cases "firstRejection ps")
      case None
      then have "\<forall>t error. Rejected t error \<notin> set ps"
        by (simp add: firstRejection_None_iff)
      with Cons.prems Rejected None show ?thesis by auto
    next
      case (Some te)
      obtain t2 e2 where te: "te = (t2, e2)" by (cases te)
      from Cons.IH[of t2 e2] Some te
      have ih: "Rejected t2 e2 \<in> set ps" "\<forall>t' error'. Rejected t' error' \<in> set ps \<longrightarrow> t2 \<le> t'"
        by simp_all
      show ?thesis
      proof (cases "t2 < t1")
        case True
        with Cons.prems Rejected Some te have "t = t2" "error = e2" by simp_all
        with ih True Rejected show ?thesis by auto
      next
        case False
        with Cons.prems Rejected Some te have "t = t1" "error = e1" by simp_all
        with ih False Rejected show ?thesis by fastforce
      qed
    qed
  qed
qed

lemma fulfilments_Some:
  "fulfilments ps = Some (t, vs) \<Longrightarrow>
     t = latest (map settledAt ps) \<and> ps = map (\<lambda>(t', v). Fulfilled t' v) (zip (map settledAt ps) vs)
     \<and> length vs = length ps"
proof (induction ps arbitrary: t vs)
  case Nil
  then show ?case by simp
next
  case (Cons p ps)
  then show ?case
    by (cases p) (auto split: option.splits)
qed

lemma fulfilments_map:
  "\<forall>r \<in> set rs. Q r = Fulfilled (T r) (V r) \<Longrightarrow>
     fulfilments (map Q rs) = Some (latest (map T rs), map V rs)"
  by (induction rs) simp_all

lemma fulfilments_None_iff:
  "fulfilments ps = None \<longleftrightarrow> (\<exists>p \<in> set ps. \<forall>t v. p \<noteq> Fulfilled t v)"
proof (induction ps)
  case Nil
  show ?case by simp
next
  case (Cons p ps)
  then show ?case by (cases p) (auto split: option.splits)
qed

lemma Promise_all_map_fulfilled:
  assumes "\<forall>r \<in> set rs. Q r = Fulfilled (T r) (V r)"
  shows "Promise_all (map Q rs) = Fulfilled (latest (map T rs)) (map V rs)"
proof -
  have "firstRejection (map Q rs) = None"
    using assms by (auto simp: firstRejection_None_iff)
  then show ?thesis
    using fulfilments_map[OF assms] by (simp add: Promise_all_def)
qed

lemma Promise_all_Fulfilled_members:
  assumes "Promise_all ps = Fulfilled t vs"
  shows "\<forall>p \<in> set ps. \<exists>t' v. p = Fulfilled t' v \<and> t' \<le> t"
proof
  fix p assume p: "p \<in> set ps"
  from assms have f: "fulfilments ps = Some (t, vs)"
    by (auto simp: Promise_all_def split: option.splits)
  then have "fulfilments ps \<noteq> None" by simp
  with p obtain t' v where pv: "p = Fulfilled t' v"
    by (auto simp: fulfilments_None_iff)
  from f have "t = latest (map settledAt ps)"
    by (simp add: fulfilments_Some)
  moreover have "settledAt p \<in> set (map settledAt ps)" using p by simp
  ultimately have "settledAt p \<le> t" by (simp only: latest_ge)
  with pv show "\<exists>t' v. p = Fulfilled t' v \<and> t' \<le> t" by simp
qed

lemma Promise_all_Rejected:
  "Promise_all ps = Rejected t error \<Longrightarrow>
     Rejected t error \<in> set ps \<and> (\<forall>t' error'. Rejected t' error' \<in> set ps \<longrightarrow> t \<le> t')"
  using firstRejection_Some[of ps t error]
  by (auto simp: Promise_all_def split: option.splits)

lemma Promise_all_rejects:
  "Rejected t error \<in> set ps \<Longrightarrow> \<exists>t' error'. Promise_all ps = Rejected t' error'"
proof -
  assume "Rejected t error \<in> set ps"
  then have "firstRejection ps \<noteq> None"
    by (auto simp: firstRejection_None_iff)
  then show ?thesis
    by (auto simp: Promise_all_def)
qed


lemma promise_then_not_Rejected: "promise_then f g p \<noteq> Rejected t error"
  by (cases p) simp_all

lemma settledAt_promise_then: "settledAt (promise_then f g p) = settledAt p"
  by (cases p) simp_all

lemma Promise_all_then_never_rejects:
  "Promise_all (map (\<lambda>r. promise_then (F r) (G r) (P r)) rs) \<noteq> Rejected t error"
proof
  assume "Promise_all (map (\<lambda>r. promise_then (F r) (G r) (P r)) rs) = Rejected t error"
  from Promise_all_Rejected[OF this]
  have "Rejected t error \<in> set (map (\<lambda>r. promise_then (F r) (G r) (P r)) rs)"
    by simp
  then show False
    by (auto simp: promise_then_not_Rejected[symmetric])
qed

text \<open>
  Claim C2. \<^verbatim>\<open>reloadAllExtensions\<close> and \<^verbatim>\<open>reloadExtensionBySourceDir\<close> of the
  multi runner never reject, whatever the member runners do. Once every member's reload
  has settled they resolve, at the tick of the last member to settle, to one result per
  runner in the runners' order: the result of a runner whose reload was fulfilled has no
  \<^verbatim>\<open>reloadError\<close>, the result of a runner whose reload was rejected carries that
  error. The witness is three runners of which the second fails: three results, exactly
  one with an error.
\<close>

theorem reload_one_outcome_per_runner:
  "(\<forall>t error. fst (MultiExtensionRunner_reloadAllExtensions runners) \<noteq> Rejected t error)
   \<and> (\<forall>t error. fst (MultiExtensionRunner_reloadExtensionBySourceDir runners dir)
          \<noteq> Rejected t error)
   \<and> ((\<forall>r \<in> set runners. runner_reloadAllExtensions r \<noteq> Pending) \<longrightarrow>
        fst (MultiExtensionRunner_reloadAllExtensions runners) =
          Fulfilled (latest (map (\<lambda>r. settledAt (runner_reloadAllExtensions r)) runners))
            (map (\<lambda>r. \<lparr>runnerName = runner_getName r,
                       reloadError = (case runner_reloadAllExtensions r of
                                        Rejected t error \<Rightarrow> Some error | _ \<Rightarrow> None),
                       result_sourceDir = None\<rparr>) runners))
   \<and> ((\<forall>r \<in> set runners. runner_reloadExtensionBySourceDir r dir \<noteq> Pending) \<longrightarrow>
        fst (MultiExtensionRunner_reloadExtensionBySourceDir runners dir) =
          Fulfilled (latest (map (\<lambda>r. settledAt (runner_reloadExtensionBySourceDir r dir)) runners))
            (map (\<lambda>r. \<lparr>runnerName = runner_getName r,
                       reloadError = (case runner_reloadExtensionBySourceDir r dir of
                                        Rejected t error \<Rightarrow> Some error | _ \<Rightarrow> None),
                       result_sourceDir = Some dir\<rparr>) runners))"
proof (intro conjI allI impI)
  fix t error
  show "fst (MultiExtensionRunner_reloadAllExtensions runners) \<noteq> Rejected t error"
    using Promise_all_then_never_rejects
      [of "\<lambda>r _. \<lparr>runnerName = runner_getName r, reloadError = None, result_sourceDir = None\<rparr>"
          "\<lambda>r error. \<lparr>runnerName = runner_getName r, reloadError = Some error, result_sourceDir = None\<rparr>"
          runner_reloadAllExtensions runners]
    by (auto simp: MultiExtensionRunner_reloadAllExtensions_def foldl_push Let_def
        split: promise.splits)
  show "fst (MultiExtensionRunner_reloadExtensionBySourceDir runners dir) \<noteq> Rejected t error"
    using Promise_all_then_never_rejects
      [of "\<lambda>r _. \<lparr>runnerName = runner_getName r, reloadError = None, result_sourceDir = Some dir\<rparr>"
          "\<lambda>r error. \<lparr>runnerName = runner_getName r, reloadError = Some error,
                       result_sourceDir = Some dir\<rparr>"
          "\<lambda>r. runner_reloadExtensionBySourceDir r dir" runners]
    by (auto simp: MultiExtensionRunner_reloadExtensionBySourceDir_def foldl_push Let_def
        split: promise.splits)
next
  assume settled: "\<forall>r \<in> set runners. runner_reloadAllExtensions r \<noteq> Pending"
  have "\<forall>r \<in> set runners.
      promise_then
        (\<lambda>_. \<lparr>runnerName = runner_getName r, reloadError = None, result_sourceDir = None\<rparr>)
        (\<lambda>error. \<lparr>runnerName = runner_getName r, reloadError = Some error, result_sourceDir = None\<rparr>)
        (runner_reloadAllExtensions r) =
      Fulfilled (settledAt (runner_reloadAllExtensions r))
        \<lparr>runnerName = runner_getName r,
         reloadError = (case runner_reloadAllExtensions r of
                          Rejected t error \<Rightarrow> Some error | _ \<Rightarrow> None),
         result_sourceDir = None\<rparr>"
  proof
    fix r assume "r \<in> set runners"
    with settled have "runner_reloadAllExtensions r \<noteq> Pending" by simp
    then show "promise_then
        (\<lambda>_. \<lparr>runnerName = runner_getName r, reloadError = None, result_sourceDir = None\<rparr>)
        (\<lambda>error. \<lparr>runnerName = runner_getName r, reloadError = Some error, result_sourceDir = None\<rparr>)
        (runner_reloadAllExtensions r) =
      Fulfilled (settledAt (runner_reloadAllExtensions r))
        \<lparr>runnerName = runner_getName r,
         reloadError = (case runner_reloadAllExtensions r of
                          Rejected t error \<Rightarrow> Some error | _ \<Rightarrow> None),
         result_sourceDir = None\<rparr>"
      by (cases "runner_reloadAllExtensions r") simp_all
  qed
  from Promise_all_map_fulfilled[OF this]
  show "fst (MultiExtensionRunner_reloadAllExtensions runners) =
          Fulfilled (latest (map (\<lambda>r. settledAt (runner_reloadAllExtensions r)) runners))
            (map (\<lambda>r. \<lparr>runnerName = runner_getName r,
                       reloadError = (case runner_reloadAllExtensions r of
                                        Rejected t error \<Rightarrow> Some error | _ \<Rightarrow> None),
                       result_sourceDir = None\<rparr>) runners)"
    by (simp add: MultiExtensionRunner_reloadAllExtensions_def foldl_push)
next
  assume settled: "\<forall>r \<in> set runners. runner_reloadExtensionBySourceDir r dir \<noteq> Pending"
  have "\<forall>r \<in> set runners.
      promise_then
        (\<lambda>_. \<lparr>runnerName = runner_getName r, reloadError = None, result_sourceDir = Some dir\<rparr>)
        (\<lambda>error. \<lparr>runnerName = runner_getName r, reloadError = Some error,
                  result_sourceDir = Some dir\<rparr>)
        (runner_reloadExtensionBySourceDir r dir) =
      Fulfilled (settledAt (runner_reloadExtensionBySourceDir r dir))
        \<lparr>runnerName = runner_getName r,
         reloadError = (case runner_reloadExtensionBySourceDir r dir of
                          Rejected t error \<Rightarrow> Some error | _ \<Rightarrow> None),
         result_sourceDir = Some dir\<rparr>"
  proof
    fix r assume "r \<in> set runners"
    with settled have "runner_reloadExtensionBySourceDir r dir \<noteq> Pending" by simp
    then show "promise_then
        (\<lambda>_. \<lparr>runnerName = runner_getName r, reloadError = None, result_sourceDir = Some dir\<rparr>)
        (\<lambda>error. \<lparr>runnerName = runner_getName r, reloadError = Some error,
                  result_sourceDir = Some dir\<rparr>)
        (runner_reloadExtensionBySourceDir r dir) =
      Fulfilled (settledAt (runner_reloadExtensionBySourceDir r dir))
        \<lparr>runnerName = runner_getName r,
         reloadError = (case runner_reloadExtensionBySourceDir r dir of
                          Rejected t error \<Rightarrow> Some error | _ \<Rightarrow> None),
         result_sourceDir = Some dir\<rparr>"
      by (cases "runner_reloadExtensionBySourceDir r dir") simp_all
  qed
  from Promise_all_map_fulfilled[OF this]
  show "fst (MultiExtensionRunner_reloadExtensionBySourceDir runners dir) =
          Fulfilled (latest (map (\<lambda>r. settledAt (runner_reloadExtensionBySourceDir r dir)) runners))
            (map (\<lambda>r. \<lparr>runnerName = runner_getName r,
                       reloadError = (case runner_reloadExtensionBySourceDir r dir of
                                        Rejected t error \<Rightarrow> Some error | _ \<Rightarrow> None),
                       result_sourceDir = Some dir\<rparr>) runners)"
    by (simp add: MultiExtensionRunner_reloadExtensionBySourceDir_def foldl_push)
qed

theorem reload_one_outcome_per_runner_witness:
  "fst (MultiExtensionRunner_reloadAllExtensions threeRunners) =
     Fulfilled 3
       [\<lparr>runnerName = ''Firefox Desktop'', reloadError = None, result_sourceDir = None\<rparr>,
        \<lparr>runnerName = ''Firefox Android'', reloadError = Some reloadFailure, result_sourceDir = None\<rparr>,
        \<lparr>runnerName = ''Chromium'', reloadError = None, result_sourceDir = None\<rparr>]
   \<and> fst (MultiExtensionRunner_reloadExtensionBySourceDir threeRunners ''/src'') =
     Fulfilled 3
       [\<lparr>runnerName = ''Firefox Desktop'', reloadError = None, result_sourceDir = Some ''/src''\<rparr>,
        \<lparr>runnerName = ''Firefox Android'', reloadError = Some reloadFailure,
         result_sourceDir = Some ''/src''\<rparr>,
        \<lparr>runnerName = ''Chromium'', reloadError = None, result_sourceDir = Some ''/src''\<rparr>]"
  using reload_one_outcome_per_runner[of threeRunners "''/src''"]
  by (simp add: threeRunners_def settlingRunner_def)

lemma exit_promises:
  "MultiExtensionRunner_exit runners = promise_map (\<lambda>_. ()) (Promise_all (map runner_exit runners))"
  by (simp add: MultiExtensionRunner_exit_def foldl_push)

lemma promise_map_Fulfilled_iff:
  "promise_map f p = Fulfilled t v \<longleftrightarrow> (\<exists>w. p = Fulfilled t w \<and> v = f w)"
  by (cases p) auto

lemma promise_map_Rejected_iff:
  "promise_map f p = Rejected t error \<longleftrightarrow> p = Rejected t error"
  by (cases p) auto

text \<open>
  Claim C3 as stated fails: with three members of which the second rejects its
  \<^verbatim>\<open>exit()\<close> at tick 2, the multi runner's \<^verbatim>\<open>exit()\<close> rejects with that member's
  error, and does so at tick 2, before the third member has finished at tick 3.
\<close>

theorem exit_rejects_counterexample:
  "MultiExtensionRunner_exit threeRunners = Rejected 2 reloadFailure"
  by (simp add: exit_promises threeRunners_def settlingRunner_def Promise_all_def)

text \<open>
  Claim C3, amended. \<^verbatim>\<open>exit()\<close> of the multi runner calls \<^verbatim>\<open>exit()\<close> on every
  member and awaits \<^verbatim>\<open>Promise.all\<close> of the results: when every member's exit is
  fulfilled it is fulfilled at the tick of the last one, and it is fulfilled only then;
  when some member's exit rejects it rejects, with the error of the earliest rejecting
  member and at that member's tick.
\<close>

theorem exit_follows_Promise_all:
  "((\<forall>r \<in> set runners. \<exists>t. runner_exit r = Fulfilled t ()) \<longrightarrow>
      MultiExtensionRunner_exit runners =
        Fulfilled (latest (map (\<lambda>r. settledAt (runner_exit r)) runners)) ())
   \<and> (\<forall>t. MultiExtensionRunner_exit runners = Fulfilled t () \<longrightarrow>
        (\<forall>r \<in> set runners. \<exists>t' \<le> t. runner_exit r = Fulfilled t' ()))
   \<and> (\<forall>t error. MultiExtensionRunner_exit runners = Rejected t error \<longrightarrow>
        (\<exists>r \<in> set runners. runner_exit r = Rejected t error)
        \<and> (\<forall>r \<in> set runners. \<forall>t' error'. runner_exit r = Rejected t' error' \<longrightarrow> t \<le> t'))
   \<and> ((\<exists>r \<in> set runners. \<exists>t error. runner_exit r = Rejected t error) \<longrightarrow>
        (\<exists>t error. MultiExtensionRunner_exit runners = Rejected t error))"
proof (intro conjI allI impI)
  assume all: "\<forall>r \<in> set runners. \<exists>t. runner_exit r = Fulfilled t ()"
  have "\<forall>r \<in> set runners. runner_exit r = Fulfilled (settledAt (runner_exit r)) ()"
  proof
    fix r assume "r \<in> set runners"
    with all obtain t where "runner_exit r = Fulfilled t ()" by blast
    then show "runner_exit r = Fulfilled (settledAt (runner_exit r)) ()" by simp
  qed
  from Promise_all_map_fulfilled[OF this]
  show "MultiExtensionRunner_exit runners =
        Fulfilled (latest (map (\<lambda>r. settledAt (runner_exit r)) runners)) ()"
    by (simp add: exit_promises)
next
  fix t assume "MultiExtensionRunner_exit runners = Fulfilled t ()"
  then obtain vs where "Promise_all (map runner_exit runners) = Fulfilled t vs"
    by (auto simp: exit_promises promise_map_Fulfilled_iff)
  from Promise_all_Fulfilled_members[OF this]
  show "\<forall>r \<in> set runners. \<exists>t' \<le> t. runner_exit r = Fulfilled t' ()"
    by auto
next
  fix t error assume "MultiExtensionRunner_exit runners = Rejected t error"
  then have "Promise_all (map runner_exit runners) = Rejected t error"
    by (simp add: exit_promises promise_map_Rejected_iff)
  from Promise_all_Rejected[OF this]
  have r: "Rejected t error \<in> set (map runner_exit runners)"
    and m: "\<forall>t' error'. Rejected t' error' \<in> set (map runner_exit runners) \<longrightarrow> t \<le> t'"
    by simp_all
  from r show "\<exists>r \<in> set runners. runner_exit r = Rejected t error" by auto
  from m show "\<forall>r \<in> set runners. \<forall>t' error'. runner_exit r = Rejected t' error' \<longrightarrow> t \<le> t'"
    by (metis image_eqI set_map)
next
  assume "\<exists>r \<in> set runners. \<exists>t error. runner_exit r = Rejected t error"
  then obtain r t error where "r \<in> set runners" "runner_exit r = Rejected t error" by blast
  then have "Rejected t error \<in> set (map runner_exit runners)"
    by (metis image_eqI set_map)
  from Promise_all_rejects[OF this]
  show "\<exists>t error. MultiExtensionRunner_exit runners = Rejected t error"
    by (auto simp: exit_promises promise_map_Rejected_iff)
qed

theorem exit_follows_Promise_all_witness:
  "MultiExtensionRunner_exit twoExitingRunners = Fulfilled 6 ()
   \<and> (\<exists>t error. MultiExtensionRunner_exit threeRunners = Rejected t error)"
  using exit_follows_Promise_all[of twoExitingRunners] exit_follows_Promise_all[of threeRunners]
  by (simp add: twoExitingRunners_def threeRunners_def settlingRunner_def)





section \<open>Properties of \<^verbatim>\<open>src/firefox/index.js\<close>\<close>

text \<open>
  Claim C10. \<^verbatim>\<open>defaultRemotePortFinder\<close> resolves exactly when the probe connection
  to the candidate port is refused, and then with the candidate port itself, never with
  another one. Any other connection error is passed on. When the probe connects, the
  probe client is disconnected and the finder fails with the error saying that the port
  is in use, and \<^verbatim>\<open>run\<close>, which awaits the finder before launching, fails with that
  error without launching Firefox.
\<close>

theorem remote_port_finder_only_on_refusal:
  fixes connect :: "nat \<Rightarrow> js_error + 'c"
  assumes "p = (case portToTry of None \<Rightarrow> REMOTE_PORT | Some q \<Rightarrow> q)"
    and "r = defaultRemotePortFinder REMOTE_PORT
               \<lparr>finder_portToTry = portToTry, finder_connectToFirefox = connect\<rparr>"
  shows "(\<forall>q. fst r = Inr q \<longleftrightarrow> q = p \<and> refused (connect p))
       \<and> (\<forall>error. connect p = Inl error \<and> \<not> refused (connect p) \<longrightarrow> r = (Inl error, []))
       \<and> (\<forall>client. connect p = Inr client \<longrightarrow>
            r = (Inl (newWebExtError
                        (''Cannot listen on port '' @ string_of_nat p @ '' because it's in use'')),
                 [client])
            \<and> firefox_run profilePath (opts\<lparr>run_findRemotePort := fst r\<rparr>) =
                (Inl (newWebExtError
                        (''Cannot listen on port '' @ string_of_nat p @ '' because it's in use'')),
                 []))"
proof (cases "connect p")
  case (Inl error)
  then show ?thesis
    using assms
    by (auto simp: defaultRemotePortFinder_def onlyErrorsWithCode_def refused_def
        split: option.splits)
next
  case (Inr client)
  then show ?thesis
    using assms
    by (auto simp: defaultRemotePortFinder_def onlyErrorsWithCode_def refused_def
        newWebExtError_def firefox_run_def split: option.splits)
qed

theorem remote_port_finder_only_on_refusal_witness:
  "defaultRemotePortFinder 6005
     \<lparr>finder_portToTry = None, finder_connectToFirefox = probeFreePort\<rparr> = (Inr 6005, [])
   \<and> defaultRemotePortFinder 6005
     \<lparr>finder_portToTry = None, finder_connectToFirefox = probeBusyPort\<rparr> =
       (Inl (newWebExtError ''Cannot listen on port 6005 because it's in use''),
        [''probe client''])
   \<and> firefox_run ''/tmp/profile''
        (someRunOptions\<lparr>run_findRemotePort :=
           fst (defaultRemotePortFinder 6005
                  \<lparr>finder_portToTry = None, finder_connectToFirefox = probeBusyPort\<rparr>)\<rparr>) =
       (Inl (newWebExtError ''Cannot listen on port 6005 because it's in use''), [])"
proof -
  have msg: "''Cannot listen on port '' @ string_of_nat 6005 @ '' because it's in use'' =
      ''Cannot listen on port 6005 because it's in use''"
    by (simp add: string_of_nat.simps)
  have port: "(6005::nat) = (case None of None \<Rightarrow> 6005 | Some q \<Rightarrow> q)"
    by simp
  note free = remote_port_finder_only_on_refusal
         [where portToTry = None and REMOTE_PORT = 6005 and connect = probeFreePort,
          OF port refl]
  have "refused (probeFreePort 6005)"
    by (simp add: probeFreePort_def refused_def connectionRefused_def)
  with free have free1: "fst (defaultRemotePortFinder 6005
     \<lparr>finder_portToTry = None, finder_connectToFirefox = probeFreePort\<rparr>) = Inr 6005"
    by blast
  have free2: "snd (defaultRemotePortFinder 6005
     \<lparr>finder_portToTry = None, finder_connectToFirefox = probeFreePort\<rparr>) = []"
    by (simp add: defaultRemotePortFinder_def probeFreePort_def)
  note busy = remote_port_finder_only_on_refusal
         [where portToTry = None and REMOTE_PORT = 6005 and connect = probeBusyPort
            and profilePath = "''/tmp/profile''" and opts = someRunOptions, OF port refl]
  have "probeBusyPort 6005 = Inr ''probe client''"
    by (simp add: probeBusyPort_def)
  with busy have "defaultRemotePortFinder 6005
     \<lparr>finder_portToTry = None, finder_connectToFirefox = probeBusyPort\<rparr> =
       (Inl (newWebExtError
               (''Cannot listen on port '' @ string_of_nat 6005 @ '' because it's in use'')),
        [''probe client''])
     \<and> firefox_run ''/tmp/profile''
        (someRunOptions\<lparr>run_findRemotePort :=
           fst (defaultRemotePortFinder 6005
                  \<lparr>finder_portToTry = None, finder_connectToFirefox = probeBusyPort\<rparr>)\<rparr>) =
       (Inl (newWebExtError
               (''Cannot listen on port '' @ string_of_nat 6005 @ '' because it's in use'')),
        [])"
    by blast
  note busy' = this[unfolded msg]
  have "defaultRemotePortFinder 6005
     \<lparr>finder_portToTry = None, finder_connectToFirefox = probeFreePort\<rparr> = (Inr 6005, [])"
    using free1 free2 by (simp add: prod_eq_iff)
  with busy' show ?thesis by blast
qed




section \<open>Properties of the run command\<close>

lemma andThen_Inr [simp]: "andThen (Inr v) f = f v"
  by (simp add: andThen_def)

lemma andThen_Inl [simp]: "andThen (Inl error) f = Inl error"
  by (simp add: andThen_def)

text \<open>
  Claim C7. When the run command reaches the temporary installation (no pre-install, and
  the manifest, the profile, the launch and the connection all succeed) and
  \<^verbatim>\<open>installTemporaryAddon\<close> fails with a \<^verbatim>\<open>RemoteTempInstallNotSupported\<close> error,
  the command fails with a \<^verbatim>\<open>WebExtError\<close> whose message tells the user to use the
  flag that installs into the profile (\<^verbatim>\<open>--pre-install\<close>; \<^verbatim>\<open>--install-to-profile\<close>
  in the older run command). Any other installation error is passed on unchanged.
\<close>

theorem unsupported_temporary_install_suggests_pre_install:
  fixes env :: "('c, 'f) run_env"
  shows
  "(\<not> argv_preInstall params
      \<and> env_getValidatedManifest env (argv_sourceDir params) = Inr manifestData
      \<and> getProfile env
           \<lparr>xr_sourceDir = argv_sourceDir params, xr_manifestData = manifestData,
            xr_profilePath = argv_firefoxProfile params,
            xr_keepProfileChanges = argv_keepProfileChanges params,
            xr_firefox = argv_firefox params, xr_browserConsole = argv_browserConsole params,
            xr_customPrefs = (case argv_customPrefs params of None \<Rightarrow> [] | Some prefs \<Rightarrow> prefs),
            xr_startUrl = argv_startUrl params\<rparr> = Inr profile
      \<and> ExtensionRunner_run env
           \<lparr>xr_sourceDir = argv_sourceDir params, xr_manifestData = manifestData,
            xr_profilePath = argv_firefoxProfile params,
            xr_keepProfileChanges = argv_keepProfileChanges params,
            xr_firefox = argv_firefox params, xr_browserConsole = argv_browserConsole params,
            xr_customPrefs = (case argv_customPrefs params of None \<Rightarrow> [] | Some prefs \<Rightarrow> prefs),
            xr_startUrl = argv_startUrl params\<rparr> profile = Inr runningFirefox
      \<and> env_firefoxClient env = Inr client
      \<and> client_installTemporaryAddon env client (argv_sourceDir params) = Inl error
    \<longrightarrow> run params env =
          (if instanceOf error RemoteTempInstallNotSupported
           then Inl (ErrorObject WebExtError
                  (''Temporary add-on installation is not supported in this version ''
                   @ ''of Firefox (you need Firefox 49 or higher). For older Firefox ''
                   @ ''versions, use --pre-install'') None)
           else Inl error))
   \<and> (\<not> legacy_installToProfile lparams
      \<and> env_getValidatedManifest env (legacy_sourceDir lparams) = Inr manifestData
      \<and> getProfile_legacy env
           \<lparr>lr_sourceDir = legacy_sourceDir lparams, lr_manifestData = manifestData,
            lr_firefoxProfile = legacy_firefoxProfile lparams,
            lr_firefoxBinary = legacy_firefoxBinary lparams\<rparr> = Inr profile
      \<and> app_run env profile (legacy_firefoxBinary lparams) [] = Inr runningFirefox
      \<and> env_firefoxClient env = Inr client
      \<and> client_installTemporaryAddon env client (legacy_sourceDir lparams) = Inl error
    \<longrightarrow> run_legacy lparams env =
          (if instanceOf error RemoteTempInstallNotSupported
           then Inl (ErrorObject WebExtError
                  (''Temporary add-on installation is not supported in this version ''
                   @ ''of Firefox (you need Firefox 49 or higher). For older Firefox ''
                   @ ''versions, use --install-to-profile'') None)
           else Inl error))"
proof (intro conjI impI)
  assume h: "\<not> argv_preInstall params
      \<and> env_getValidatedManifest env (argv_sourceDir params) = Inr manifestData
      \<and> getProfile env
           \<lparr>xr_sourceDir = argv_sourceDir params, xr_manifestData = manifestData,
            xr_profilePath = argv_firefoxProfile params,
            xr_keepProfileChanges = argv_keepProfileChanges params,
            xr_firefox = argv_firefox params, xr_browserConsole = argv_browserConsole params,
            xr_customPrefs = (case argv_customPrefs params of None \<Rightarrow> [] | Some prefs \<Rightarrow> prefs),
            xr_startUrl = argv_startUrl params\<rparr> = Inr profile
      \<and> ExtensionRunner_run env
           \<lparr>xr_sourceDir = argv_sourceDir params, xr_manifestData = manifestData,
            xr_profilePath = argv_firefoxProfile params,
            xr_keepProfileChanges = argv_keepProfileChanges params,
            xr_firefox = argv_firefox params, xr_browserConsole = argv_browserConsole params,
            xr_customPrefs = (case argv_customPrefs params of None \<Rightarrow> [] | Some prefs \<Rightarrow> prefs),
            xr_startUrl = argv_startUrl params\<rparr> profile = Inr runningFirefox
      \<and> env_firefoxClient env = Inr client
      \<and> client_installTemporaryAddon env client (argv_sourceDir params) = Inl error"
  then show "run params env =
          (if instanceOf error RemoteTempInstallNotSupported
           then Inl (ErrorObject WebExtError
                  (''Temporary add-on installation is not supported in this version ''
                   @ ''of Firefox (you need Firefox 49 or higher). For older Firefox ''
                   @ ''versions, use --pre-install'') None)
           else Inl error)"
    by (simp add: run_def Let_def installAsTemporaryAddon_def newWebExtError_def
        remoteInstallNotSupportedMessage_def)
next
  assume h: "\<not> legacy_installToProfile lparams
      \<and> env_getValidatedManifest env (legacy_sourceDir lparams) = Inr manifestData
      \<and> getProfile_legacy env
           \<lparr>lr_sourceDir = legacy_sourceDir lparams, lr_manifestData = manifestData,
            lr_firefoxProfile = legacy_firefoxProfile lparams,
            lr_firefoxBinary = legacy_firefoxBinary lparams\<rparr> = Inr profile
      \<and> app_run env profile (legacy_firefoxBinary lparams) [] = Inr runningFirefox
      \<and> env_firefoxClient env = Inr client
      \<and> client_installTemporaryAddon env client (legacy_sourceDir lparams) = Inl error"
  then show "run_legacy lparams env =
          (if instanceOf error RemoteTempInstallNotSupported
           then Inl (ErrorObject WebExtError
                  (''Temporary add-on installation is not supported in this version ''
                   @ ''of Firefox (you need Firefox 49 or higher). For older Firefox ''
                   @ ''versions, use --install-to-profile'') None)
           else Inl error)"
    by (simp add: run_legacy_def Let_def installAsTemporaryAddon_legacy_def newWebExtError_def
        installToProfileMessage_def onlyInstancesOf_def)
qed

theorem unsupported_temporary_install_suggests_pre_install_witness:
  "run plainRun oldFirefox =
     Inl (ErrorObject WebExtError
            (''Temporary add-on installation is not supported in this version ''
             @ ''of Firefox (you need Firefox 49 or higher). For older Firefox ''
             @ ''versions, use --pre-install'') None)
   \<and> run_legacy plainRun_legacy oldFirefox =
     Inl (ErrorObject WebExtError
            (''Temporary add-on installation is not supported in this version ''
             @ ''of Firefox (you need Firefox 49 or higher). For older Firefox ''
             @ ''versions, use --install-to-profile'') None)
   \<and> run plainRun
        (oldFirefox\<lparr>client_installTemporaryAddon :=
           (\<lambda>client dir. Inl (ErrorObject PlainError ''unexpected packet'' None))\<rparr>) =
     Inl (ErrorObject PlainError ''unexpected packet'' None)"
proof -
  note old = unsupported_temporary_install_suggests_pre_install
      [where params = plainRun and lparams = plainRun_legacy and env = oldFirefox
         and manifestData = minimalManifest and profile = someProfile
         and runningFirefox = "''firefox process''" and client = "''client''"
         and error = "ErrorObject RemoteTempInstallNotSupported [] None"]
  note other = unsupported_temporary_install_suggests_pre_install
      [where params = plainRun and lparams = plainRun_legacy
         and env = "oldFirefox\<lparr>client_installTemporaryAddon :=
           (\<lambda>client dir. Inl (ErrorObject PlainError ''unexpected packet'' None))\<rparr>"
         and manifestData = minimalManifest and profile = someProfile
         and runningFirefox = "''firefox process''" and client = "''client''"
         and error = "ErrorObject PlainError ''unexpected packet'' None"]
  show ?thesis
    using old other
    by (simp add: plainRun_def plainRun_legacy_def oldFirefox_def getProfile_def
        getProfile_legacy_def ExtensionRunner_run_def)
qed

section \<open>Properties of the Chromium reload channel\<close>

lemma wssBroadcast_clients:
  "wss_clients (wssBroadcast msg runner) =
     map (\<lambda>client. if readyState client = OPEN
                    then client\<lparr>received := received client @ [msg]\<rparr> else client)
       (wss_clients runner)"
  by (simp add: wssBroadcast_def)

text \<open>
  Claim C8. On the Chromium runner \<^verbatim>\<open>reloadExtensionBySourceDir\<close> does what
  \<^verbatim>\<open>reloadAllExtensions\<close> does, for any directory, and that is one broadcast: the set
  of connections is unchanged, every open connection receives exactly one more message,
  \<^verbatim>\<open>{type: "webExtReloadAllExtensions"}\<close>, after those it had, and a closed connection
  receives nothing.
\<close>

theorem chromium_reload_is_one_broadcast:
  "Chromium_reloadExtensionBySourceDir runner dir = Chromium_reloadAllExtensions runner
   \<and> length (wss_clients (snd (Chromium_reloadAllExtensions runner))) = length (wss_clients runner)
   \<and> (\<forall>i < length (wss_clients runner).
        readyState (wss_clients (snd (Chromium_reloadAllExtensions runner)) ! i)
          = readyState (wss_clients runner ! i)
        \<and> received (wss_clients (snd (Chromium_reloadAllExtensions runner)) ! i)
          = (if readyState (wss_clients runner ! i) = OPEN
             then received (wss_clients runner ! i) @ [\<lparr>msg_type = ''webExtReloadAllExtensions''\<rparr>]
             else received (wss_clients runner ! i)))"
  by (simp add: Chromium_reloadExtensionBySourceDir_def Chromium_reloadAllExtensions_def
      wssBroadcast_clients)

theorem chromium_reload_is_one_broadcast_witness:
  "wss_clients (snd (Chromium_reloadExtensionBySourceDir chromiumWithSockets ''/fake/sourceDir'')) =
     [\<lparr>readyState = OPEN, received = [\<lparr>msg_type = ''webExtReloadAllExtensions''\<rparr>]\<rparr>,
      \<lparr>readyState = CLOSED, received = []\<rparr>,
      \<lparr>readyState = OPEN,
       received = [\<lparr>msg_type = ''webExtReloadAllExtensions''\<rparr>,
                   \<lparr>msg_type = ''webExtReloadAllExtensions''\<rparr>]\<rparr>]"
proof -
  note b = chromium_reload_is_one_broadcast[of chromiumWithSockets "''/fake/sourceDir''"]
  have n: "length (wss_clients chromiumWithSockets) = 3"
    by (simp add: chromiumWithSockets_def)
  have c0: "wss_clients chromiumWithSockets ! 0 = \<lparr>readyState = OPEN, received = []\<rparr>"
    and c1: "wss_clients chromiumWithSockets ! 1 = \<lparr>readyState = CLOSED, received = []\<rparr>"
    and c2: "wss_clients chromiumWithSockets ! 2 =
        \<lparr>readyState = OPEN, received = [\<lparr>msg_type = ''webExtReloadAllExtensions''\<rparr>]\<rparr>"
    by (simp_all add: chromiumWithSockets_def)
  let ?cs = "wss_clients (snd (Chromium_reloadExtensionBySourceDir chromiumWithSockets ''/fake/sourceDir''))"
  from b n have len: "length ?cs = 3" by simp
  from b n c0 have r0: "?cs ! 0 = \<lparr>readyState = OPEN, received = [\<lparr>msg_type = ''webExtReloadAllExtensions''\<rparr>]\<rparr>"
    by (intro companion_socket.equality) simp_all
  from b n c1 have r1: "?cs ! 1 = \<lparr>readyState = CLOSED, received = []\<rparr>"
    by (intro companion_socket.equality) simp_all
  from b n c2 have r2: "?cs ! 2 = \<lparr>readyState = OPEN,
       received = [\<lparr>msg_type = ''webExtReloadAllExtensions''\<rparr>,
                   \<lparr>msg_type = ''webExtReloadAllExtensions''\<rparr>]\<rparr>"
    by (intro companion_socket.equality) simp_all
  from len r0 r1 r2 show ?thesis
    by (intro nth_equalityI) (auto simp: less_Suc_eq numeral_3_eq_3 numeral_2_eq_2)
qed

end
